theory Spec2Isabelle
  imports Complex_Main "HOL-Library.Char_ord" "HOL-Library.List_Lexorder" "HOL-Library.Product_Lexorder"
begin

section \<open>Numeric cells\<close>

text \<open>
  A numeric cell of a data frame is a double: a finite number, an infinity or NaN (which
  pandas also uses for a missing value). Finite doubles are modelled as reals, so
  rounding and overflow are left out and zero carries no sign; the special values and
  the way the arithmetic produces and propagates them are kept, since a division by a
  zero or missing population yields them. Rounding is modelled where a property depends
  on it: for the areal weights, whose proportions are to add up to 1, in the section on
  the areal weights in floating point.
\<close>

datatype fnum = Fin real | PInf | NInf | NaN

fun fadd :: "fnum \<Rightarrow> fnum \<Rightarrow> fnum" where
  "fadd NaN y = NaN"
| "fadd x NaN = NaN"
| "fadd (Fin a) (Fin b) = Fin (a + b)"
| "fadd PInf NInf = NaN"
| "fadd NInf PInf = NaN"
| "fadd PInf y = PInf"
| "fadd x PInf = PInf"
| "fadd NInf y = NInf"
| "fadd x NInf = NInf"

fun fmul :: "fnum \<Rightarrow> fnum \<Rightarrow> fnum" where
  "fmul NaN y = NaN"
| "fmul x NaN = NaN"
| "fmul (Fin a) (Fin b) = Fin (a * b)"
| "fmul PInf (Fin b) = (if b = 0 then NaN else if 0 < b then PInf else NInf)"
| "fmul NInf (Fin b) = (if b = 0 then NaN else if 0 < b then NInf else PInf)"
| "fmul (Fin a) PInf = (if a = 0 then NaN else if 0 < a then PInf else NInf)"
| "fmul (Fin a) NInf = (if a = 0 then NaN else if 0 < a then NInf else PInf)"
| "fmul PInf PInf = PInf"
| "fmul PInf NInf = NInf"
| "fmul NInf PInf = NInf"
| "fmul NInf NInf = PInf"

fun fdiv :: "fnum \<Rightarrow> fnum \<Rightarrow> fnum" where
  "fdiv NaN y = NaN"
| "fdiv x NaN = NaN"
| "fdiv (Fin a) (Fin b) =
     (if b \<noteq> 0 then Fin (a / b) else if 0 < a then PInf else if a < 0 then NInf else NaN)"
| "fdiv (Fin a) PInf = Fin 0"
| "fdiv (Fin a) NInf = Fin 0"
| "fdiv PInf (Fin b) = (if 0 \<le> b then PInf else NInf)"
| "fdiv NInf (Fin b) = (if 0 \<le> b then NInf else PInf)"
| "fdiv PInf PInf = NaN"
| "fdiv PInf NInf = NaN"
| "fdiv NInf PInf = NaN"
| "fdiv NInf NInf = NaN"

text \<open>The plain sum of a list of cells: a NaN summand makes the sum NaN.\<close>

definition fsum :: "fnum list \<Rightarrow> fnum" where
  "fsum xs = foldl fadd (Fin 0) xs"

text \<open>
  \<open>sum\<close> of pandas, as \<open>Series.sum\<close>, \<open>groupby(...).sum\<close> and \<open>DataFrame.sum(axis=1)\<close>
  run it with their default \<open>skipna=True\<close>: NaN cells are left out, and the sum of no cell is 0.
\<close>

definition sum_skipna :: "fnum list \<Rightarrow> fnum" where
  "sum_skipna xs = fsum (filter (\<lambda>x. x \<noteq> NaN) xs)"

text \<open>\<open>fillna(0)\<close> on a numeric cell.\<close>

definition fillna0 :: "fnum \<Rightarrow> fnum" where
  "fillna0 x = (case x of NaN \<Rightarrow> Fin 0 | _ \<Rightarrow> x)"

section \<open>Step 2 of the notebooks: tracts to districts, areal weights\<close>

text \<open>
  The rows of the two shapefiles. The type \<open>'g\<close> is the geometry of the geospatial
  library. The 2010 tract file names the tract identifier \<open>geoid10\<close>, the 2000 file
  \<open>CENSUS_T_1\<close>; one record serves both. In the district file \<open>dist_num\<close> is a
  string column (the notebooks print its values as \<open>'1' '10' '11'\<close> ...).
\<close>

record 'g census_tract =
  geoid10 :: string
  tract_geometry :: 'g

record 'g police_district =
  dist_label :: string
  dist_num :: string
  district_geometry :: 'g

text \<open>
  \<open>cpd_districts[cpd_districts['dist_label'] != '31ST']\<close>, the same line in both
  notebooks.
\<close>

definition remove_31ST :: "'g police_district list \<Rightarrow> 'g police_district list" where
  "remove_31ST districts = filter (\<lambda>d. dist_label d \<noteq> ''31ST'') districts"

text \<open>
  \<open>gpd.overlay(tracts, districts, how='intersection')\<close> followed by \<open>.geometry.area\<close>.
  The overlay is the library's; it is the parameter \<open>ov\<close>: for the geometry of a tract
  and of a district, \<open>None\<close> when the overlay has no row for the pair, \<open>Some a\<close> when
  it has one, whose geometry has area \<open>a\<close>. The reprojection to EPSG 26971 before it
  changes geometries only and is part of \<open>ov\<close>.
\<close>

record overlay_row =
  ov_tract :: string
  ov_dist_num :: string
  intersection_area :: real

definition overlay ::
  "('g \<Rightarrow> 'g \<Rightarrow> real option) \<Rightarrow> 'g census_tract list \<Rightarrow> 'g police_district list
     \<Rightarrow> overlay_row list" where
  "overlay ov tracts districts =
     concat (map (\<lambda>t. concat (map (\<lambda>d.
       case ov (tract_geometry t) (district_geometry d) of
         None \<Rightarrow> []
       | Some a \<Rightarrow> [\<lparr>ov_tract = geoid10 t, ov_dist_num = dist_num d, intersection_area = a\<rparr>])
       districts)) tracts)"

text \<open>\<open>groupby(tract id)['intersection_area'].transform('sum')\<close>, read at one tract.\<close>

definition total_tract_area :: "overlay_row list \<Rightarrow> string \<Rightarrow> real" where
  "total_tract_area rows t = sum_list (map intersection_area (filter (\<lambda>r. ov_tract r = t) rows))"

record weight_row =
  w_tract :: string
  w_dist_num :: string
  proportion :: fnum

definition areal_weights :: "overlay_row list \<Rightarrow> weight_row list" where
  "areal_weights rows =
     map (\<lambda>r. \<lparr>w_tract = ov_tract r, w_dist_num = ov_dist_num r,
               proportion = fdiv (Fin (intersection_area r))
                                 (Fin (total_tract_area rows (ov_tract r)))\<rparr>) rows"

text \<open>The 2010-2020 notebook.\<close>

definition tracts_to_districts_2010 ::
  "('g \<Rightarrow> 'g \<Rightarrow> real option) \<Rightarrow> 'g census_tract list \<Rightarrow> 'g police_district list
     \<Rightarrow> weight_row list" where
  "tracts_to_districts_2010 ov chicago_census cpd_districts =
     areal_weights (overlay ov chicago_census (remove_31ST cpd_districts))"

text \<open>
  The 2005-2009 notebook ends the same cell with
  \<open>tracts_to_districts[tracts_to_districts['dist_num'] != 31]\<close>. The column holds
  strings and 31 is an integer: pandas compares them elementwise, a string is never equal
  to an integer, and every row is kept.
\<close>

definition ne_int :: "string \<Rightarrow> int \<Rightarrow> bool" where
  "ne_int s i = True"

definition tracts_to_districts_2005 ::
  "('g \<Rightarrow> 'g \<Rightarrow> real option) \<Rightarrow> 'g census_tract list \<Rightarrow> 'g police_district list
     \<Rightarrow> weight_row list" where
  "tracts_to_districts_2005 ov tracts districts =
     filter (\<lambda>w. ne_int (w_dist_num w) 31)
       (areal_weights (overlay ov tracts (remove_31ST districts)))"

section \<open>The areal weights in floating point\<close>

text \<open>
  The division and the group sum of the cell above are operations on doubles, and what
  they round decides whether the proportions of a tract add up to 1. Here the same cell
  takes both as parameters: \<open>rnd\<close> rounds the exact quotient to the cell that is stored,
  and \<open>sumf\<close> is the group sum. With no rounding and the exact sum they are the definitions
  above (lemma \<open>areal_weights_fl_exact\<close>).
\<close>

definition total_tract_area_fl :: "(real list \<Rightarrow> real) \<Rightarrow> overlay_row list \<Rightarrow> string \<Rightarrow> real" where
  "total_tract_area_fl sumf rows t =
     sumf (map intersection_area (filter (\<lambda>r. ov_tract r = t) rows))"

definition fdiv_fl :: "(real \<Rightarrow> fnum) \<Rightarrow> fnum \<Rightarrow> fnum \<Rightarrow> fnum" where
  "fdiv_fl rnd x y = (case fdiv x y of Fin q \<Rightarrow> rnd q | z \<Rightarrow> z)"

definition areal_weights_fl ::
  "(real \<Rightarrow> fnum) \<Rightarrow> (real list \<Rightarrow> real) \<Rightarrow> overlay_row list \<Rightarrow> weight_row list" where
  "areal_weights_fl rnd sumf rows =
     map (\<lambda>r. \<lparr>w_tract = ov_tract r, w_dist_num = ov_dist_num r,
               proportion = fdiv_fl rnd (Fin (intersection_area r))
                              (Fin (total_tract_area_fl sumf rows (ov_tract r)))\<rparr>) rows"

definition tracts_to_districts_2010_fl ::
  "(real \<Rightarrow> fnum) \<Rightarrow> (real list \<Rightarrow> real) \<Rightarrow> ('g \<Rightarrow> 'g \<Rightarrow> real option)
     \<Rightarrow> 'g census_tract list \<Rightarrow> 'g police_district list \<Rightarrow> weight_row list" where
  "tracts_to_districts_2010_fl rnd sumf ov chicago_census cpd_districts =
     areal_weights_fl rnd sumf (overlay ov chicago_census (remove_31ST cpd_districts))"

definition tracts_to_districts_2005_fl ::
  "(real \<Rightarrow> fnum) \<Rightarrow> (real list \<Rightarrow> real) \<Rightarrow> ('g \<Rightarrow> 'g \<Rightarrow> real option)
     \<Rightarrow> 'g census_tract list \<Rightarrow> 'g police_district list \<Rightarrow> weight_row list" where
  "tracts_to_districts_2005_fl rnd sumf ov tracts districts =
     filter (\<lambda>w. ne_int (w_dist_num w) 31)
       (areal_weights_fl rnd sumf (overlay ov tracts (remove_31ST districts)))"









section \<open>Generic data-frame operations\<close>

text \<open>
  \<open>merge(how='inner')\<close> and \<open>merge(how='left')\<close> of pandas on a key condition: every
  left row is paired with each right row that matches it; the left merge keeps a left
  row without a match, once, with nothing on the right.
\<close>

definition merge_inner :: "('l \<Rightarrow> 'r \<Rightarrow> bool) \<Rightarrow> 'l list \<Rightarrow> 'r list \<Rightarrow> ('l \<times> 'r) list" where
  "merge_inner on left right = concat (map (\<lambda>l. map (\<lambda>m. (l, m)) (filter (on l) right)) left)"

definition merge_left ::
  "('l \<Rightarrow> 'r \<Rightarrow> bool) \<Rightarrow> 'l list \<Rightarrow> 'r list \<Rightarrow> ('l \<times> 'r option) list" where
  "merge_left on left right =
     concat (map (\<lambda>l. case filter (on l) right of
                         [] \<Rightarrow> [(l, None)]
                       | ms \<Rightarrow> map (\<lambda>m. (l, Some m)) ms) left)"

text \<open>The keys of a \<open>groupby\<close>: the distinct key values, sorted.\<close>

definition group_keys :: "('a \<Rightarrow> 'k::linorder) \<Rightarrow> 'a list \<Rightarrow> 'k list" where
  "group_keys key rows = sort (remdups (map key rows))"

text \<open>
  \<open>mean\<close> of a group, with the default \<open>skipna=True\<close>. The group mean of pandas 2.0.3
  accumulates the cells that are not NaN by compensated summation: the compensation is what
  the last addition lost. On finite cells it is 0 here, where finite numbers are exact;
  after an infinite cell it is NaN, and so is the sum once another cell follows.
\<close>

definition fneg :: "fnum \<Rightarrow> fnum" where
  "fneg x = (case x of Fin a \<Rightarrow> Fin (- a) | PInf \<Rightarrow> NInf | NInf \<Rightarrow> PInf | NaN \<Rightarrow> NaN)"

definition fsub :: "fnum \<Rightarrow> fnum \<Rightarrow> fnum" where
  "fsub x y = fadd x (fneg y)"

fun group_accumulate :: "fnum \<Rightarrow> fnum \<Rightarrow> fnum list \<Rightarrow> fnum" where
  "group_accumulate sumx compensation [] = sumx"
| "group_accumulate sumx compensation (val # vals) =
     (let y = fsub val compensation; t = fadd sumx y
      in group_accumulate t (fsub (fsub t sumx) y) vals)"

definition mean_skipna :: "fnum list \<Rightarrow> fnum" where
  "mean_skipna xs =
     (let vals = filter (\<lambda>x. x \<noteq> NaN) xs
      in fdiv (group_accumulate (Fin 0) (Fin 0) vals) (Fin (real (length vals))))"

text \<open>Decimal rendering of a natural number, \<open>str.zfill\<close> and \<open>str.lstrip('0')\<close>.\<close>

definition digit_char :: "nat \<Rightarrow> char" where
  "digit_char d = ''0123456789'' ! d"

fun str_nat :: "nat \<Rightarrow> string" where
  "str_nat n = (if n < 10 then [digit_char n] else str_nat (n div 10) @ [digit_char (n mod 10)])"

declare str_nat.simps [simp del]

definition zfill :: "nat \<Rightarrow> string \<Rightarrow> string" where
  "zfill w s = replicate (w - length s) (CHR ''0'') @ s"

definition lstrip0 :: "string \<Rightarrow> string" where
  "lstrip0 s = dropWhile (\<lambda>c. c = CHR ''0'') s"

section \<open>Steps 3 and 4 of the 2010-2020 notebook: survey data to districts\<close>

datatype acs_variable =
  B01003_001E | B03002_003E | B03002_004E | B03002_006E | B03002_012E
  | C17002_001E | C17002_002E | C17002_003E

text \<open>
  A row of the answer of the census API for one year: the three parts of the tract
  identifier and one estimate for each requested variable, \<open>None\<close> when the API gives
  none.
\<close>

record api_row =
  state :: string
  county :: string
  tract :: string
  estimate :: "acs_variable \<Rightarrow> real option"

record acs_row =
  GEOID :: string
  acs_year :: int
  acs_value :: "acs_variable \<Rightarrow> fnum"

text \<open>
  \<open>get_acs_data\<close> asks the API (the parameter \<open>api\<close>) for one year and adds the year
  column; the notebook concatenates the years \<open>range(2010, 2021)\<close>, builds \<open>GEOID\<close>
  and fills missing values with 0.
\<close>

definition get_acs_data :: "(int \<Rightarrow> api_row list) \<Rightarrow> int \<Rightarrow> (api_row \<times> int) list" where
  "get_acs_data api year = map (\<lambda>r. (r, year)) (api year)"

definition acs_data_post_2009 :: "(int \<Rightarrow> api_row list) \<Rightarrow> acs_row list" where
  "acs_data_post_2009 api =
     map (\<lambda>(r, y). \<lparr>GEOID = state r @ county r @ tract r, acs_year = y,
                    acs_value = (\<lambda>v. fillna0 (case estimate r v of None \<Rightarrow> NaN | Some x \<Rightarrow> Fin x))\<rparr>)
         (concat (map (get_acs_data api) [2010..2020]))"

definition acs_columns_post_2009 :: "acs_variable list" where
  "acs_columns_post_2009 =
     [B01003_001E, C17002_001E, C17002_002E, C17002_003E,
      B03002_003E, B03002_004E, B03002_006E, B03002_012E]"

record mapped_row =
  m_dist_num :: string
  m_year :: int
  m_proportion :: fnum
  m_value :: "acs_variable \<Rightarrow> fnum"

text \<open>
  The inner merge on \<open>GEOID = geoid10\<close>, the loop that multiplies each listed column by
  \<open>proportion\<close>, and \<open>fillna(0)\<close> on the whole frame.
\<close>

definition acs_mapped_post_2009 :: "acs_row list \<Rightarrow> weight_row list \<Rightarrow> mapped_row list" where
  "acs_mapped_post_2009 acs w2d =
     map (\<lambda>(a, w). \<lparr>m_dist_num = w_dist_num w, m_year = acs_year a,
                    m_proportion = fillna0 (proportion w),
                    m_value = (\<lambda>v. fillna0 (if v \<in> set acs_columns_post_2009
                                              then fmul (acs_value a v) (proportion w)
                                              else acs_value a v))\<rparr>)
         (merge_inner (\<lambda>a w. GEOID a = w_tract w) acs w2d)"

record district_year_row =
  dy_dist_num :: string
  dy_year :: int
  dy_sum :: "acs_variable \<Rightarrow> fnum"

text \<open>\<open>groupby(['dist_num', 'year']).agg({... : 'sum'})\<close>.\<close>

definition district_aggregated_post_2009 :: "mapped_row list \<Rightarrow> district_year_row list" where
  "district_aggregated_post_2009 rows =
     map (\<lambda>(d, y). \<lparr>dy_dist_num = d, dy_year = y,
                    dy_sum = (\<lambda>v. sum_skipna (map (\<lambda>r. m_value r v)
                                (filter (\<lambda>r. m_dist_num r = d \<and> m_year r = y) rows)))\<rparr>)
         (group_keys (\<lambda>r. (m_dist_num r, m_year r)) rows)"

text \<open>
  The next cell derives percentages from these sums, drops the race and poverty columns
  and renames \<open>B01003_001E\<close> to \<open>Total_Population\<close>; the crime merge then reads the
  columns \<open>dist_num\<close>, \<open>year\<close> and \<open>Total_Population\<close> only.
\<close>

definition Total_Population_post_2009 :: "district_year_row \<Rightarrow> fnum" where
  "Total_Population_post_2009 r = dy_sum r B01003_001E"

text \<open>The survey side of the 2010-2020 notebook, from its inputs.\<close>

definition acs_2010_2020 ::
  "('g \<Rightarrow> 'g \<Rightarrow> real option) \<Rightarrow> 'g census_tract list \<Rightarrow> 'g police_district list
     \<Rightarrow> (int \<Rightarrow> api_row list) \<Rightarrow> district_year_row list" where
  "acs_2010_2020 ov chicago_census cpd_districts api =
     district_aggregated_post_2009
       (acs_mapped_post_2009 (acs_data_post_2009 api)
          (tracts_to_districts_2010 ov chicago_census cpd_districts))"

section \<open>Steps 1 to 4 of the 2005-2009 notebook: survey data to districts\<close>

datatype nhgis_variable =
  RK9E001 | RLIE001 | RLIE003 | RLIE004 | RLIE006 | RLIE012 | RNBE001 | RNBE002 | RNBE003

record nhgis_row =
  STATEA :: nat
  COUNTYA :: nat
  TRACTA :: nat
  nhgis_estimate :: "nhgis_variable \<Rightarrow> real option"

record chicago_row =
  census_tract_id :: string
  chicago_value :: "nhgis_variable \<Rightarrow> fnum"

text \<open>
  The filter on state 17 and county 31, \<open>fillna(0)\<close>, and the tract identifier built
  from the zero-filled codes.
\<close>

definition acs2005_2009_chicago :: "nhgis_row list \<Rightarrow> chicago_row list" where
  "acs2005_2009_chicago acs2005_2009 =
     map (\<lambda>r. \<lparr>census_tract_id = zfill 2 (str_nat (STATEA r)) @ zfill 3 (str_nat (COUNTYA r))
                                   @ zfill 6 (str_nat (TRACTA r)),
               chicago_value = (\<lambda>v. fillna0 (case nhgis_estimate r v of
                                                 None \<Rightarrow> NaN | Some x \<Rightarrow> Fin x))\<rparr>)
         (filter (\<lambda>r. STATEA r = 17 \<and> COUNTYA r = 31) acs2005_2009)"

record filtered_row =
  fd_Total_Population :: fnum
  fd_RLIE001 :: fnum
  fd_Total_Population_Poverty_Status :: fnum
  fd_dist_num :: string
  fd_proportion :: fnum
  fd_Percent_Hispanic :: fnum
  fd_Percent_NonHispanic_White :: fnum
  fd_Percent_NonHispanic_Black :: fnum
  fd_Percent_NonHispanic_Asian :: fnum
  fd_Poverty_Percent :: fnum

text \<open>
  \<open>merged_data2005\<close> and \<open>filtered_df\<close>: the inner merge of the weights with the survey
  rows, the kept columns, the percentages of each tract, the renaming and \<open>fillna(0)\<close>.
  The column \<open>proportion\<close> is kept and multiplies nothing.
\<close>

definition percent :: "fnum \<Rightarrow> fnum \<Rightarrow> fnum" where
  "percent x whole = fmul (fdiv x whole) (Fin 100)"

definition filtered_df :: "weight_row list \<Rightarrow> chicago_row list \<Rightarrow> filtered_row list" where
  "filtered_df w2d chicago =
     map (\<lambda>(w, a).
        \<lparr>fd_Total_Population = fillna0 (chicago_value a RK9E001),
         fd_RLIE001 = fillna0 (chicago_value a RLIE001),
         fd_Total_Population_Poverty_Status = fillna0 (chicago_value a RNBE001),
         fd_dist_num = w_dist_num w,
         fd_proportion = fillna0 (proportion w),
         fd_Percent_Hispanic =
           fillna0 (percent (chicago_value a RLIE012) (chicago_value a RK9E001)),
         fd_Percent_NonHispanic_White =
           fillna0 (percent (chicago_value a RLIE003) (chicago_value a RK9E001)),
         fd_Percent_NonHispanic_Black =
           fillna0 (percent (chicago_value a RLIE004) (chicago_value a RK9E001)),
         fd_Percent_NonHispanic_Asian =
           fillna0 (percent (chicago_value a RLIE006) (chicago_value a RK9E001)),
         fd_Poverty_Percent =
           fillna0 (percent (fadd (chicago_value a RNBE002) (chicago_value a RNBE003))
                            (chicago_value a RNBE001))\<rparr>)
       (merge_inner (\<lambda>w a. w_tract w = census_tract_id a) w2d chicago)"

record district_row =
  d_dist_num :: string
  d_Total_Population :: fnum
  d_Poverty_Percent :: fnum
  d_Percent_NonHispanic_White :: fnum
  d_Percent_NonHispanic_Black :: fnum
  d_Percent_NonHispanic_Asian :: fnum
  d_Percent_Hispanic :: fnum

text \<open>\<open>filtered_df.groupby('dist_num').agg(agg_funcs)\<close>: one sum and five means.\<close>

definition district_aggregated2005 :: "filtered_row list \<Rightarrow> district_row list" where
  "district_aggregated2005 rows =
     map (\<lambda>d. let g = filter (\<lambda>r. fd_dist_num r = d) rows in
        \<lparr>d_dist_num = d,
         d_Total_Population = sum_skipna (map fd_Total_Population g),
         d_Poverty_Percent = mean_skipna (map fd_Poverty_Percent g),
         d_Percent_NonHispanic_White = mean_skipna (map fd_Percent_NonHispanic_White g),
         d_Percent_NonHispanic_Black = mean_skipna (map fd_Percent_NonHispanic_Black g),
         d_Percent_NonHispanic_Asian = mean_skipna (map fd_Percent_NonHispanic_Asian g),
         d_Percent_Hispanic = mean_skipna (map fd_Percent_Hispanic g)\<rparr>)
       (group_keys fd_dist_num rows)"

text \<open>The survey side of the 2005-2009 notebook, from its inputs.\<close>

definition acs_2005_2009 ::
  "('g \<Rightarrow> 'g \<Rightarrow> real option) \<Rightarrow> 'g census_tract list \<Rightarrow> 'g police_district list
     \<Rightarrow> nhgis_row list \<Rightarrow> district_row list" where
  "acs_2005_2009 ov tracts districts acs2005_2009 =
     district_aggregated2005
       (filtered_df (tracts_to_districts_2005 ov tracts districts)
                    (acs2005_2009_chicago acs2005_2009))"

section \<open>The R step: filtering and categorising the crime records\<close>

text \<open>
  An instant, as far as the code reads it: the calendar date and the second of the day.
  A date cell of the input is either well-formed, and denotes an instant, or malformed;
  which text is which is the business of the date parsers of the libraries.
\<close>

record timestamp =
  ts_year :: int
  ts_month :: nat
  ts_day :: nat
  ts_second :: nat

datatype date_cell = WellFormed timestamp | Malformed string

datatype error = FormatError | ParserError string | KeyError string

text \<open>
  A row of the crime file after \<open>as.numeric(District)\<close>: the district is a number or
  \<open>NA\<close>. The columns that the pipeline only carries along (beat, ward, arrest flag,
  coordinates) are left out.
\<close>

record crime_csv_row =
  csv_Date :: date_cell
  csv_ID :: nat
  csv_District :: "real option"
  csv_Primary_Type :: string

record crime_unit =
  Date :: date_cell
  ID :: nat
  District :: string
  Primary_Type :: string
  Crime_Category :: string

text \<open>
  \<open>sprintf("%03d", x)\<close> of R: a whole number is written in decimal, zero-filled to three
  characters (the sign counts for one), \<open>NA\<close> is written as a string in a field of three
  characters, and a number that is not whole stops the script with an error.
\<close>

definition sprintf_03d :: "real option \<Rightarrow> error + string" where
  "sprintf_03d x =
     (case x of
        None \<Rightarrow> Inr '' NA''
      | Some v \<Rightarrow>
          if v \<noteq> of_int \<lfloor>v\<rfloor> then Inl FormatError
          else if 0 \<le> v then Inr (zfill 3 (str_nat (nat \<lfloor>v\<rfloor>)))
          else Inr (CHR ''-'' # zfill 2 (str_nat (nat (- \<lfloor>v\<rfloor>)))))"

fun sprintf_column :: "real option list \<Rightarrow> error + string list" where
  "sprintf_column [] = Inr []"
| "sprintf_column (x # xs) =
     (case sprintf_03d x of
        Inl e \<Rightarrow> Inl e
      | Inr s \<Rightarrow> (case sprintf_column xs of Inl e \<Rightarrow> Inl e | Inr ss \<Rightarrow> Inr (s # ss)))"

text \<open>
  \<open>mdy_hms\<close> of lubridate: a date that fails to parse becomes \<open>NA\<close>, with a warning and
  no error.
\<close>

definition mdy_hms :: "date_cell \<Rightarrow> timestamp option" where
  "mdy_hms c = (case c of WellFormed t \<Rightarrow> Some t | Malformed s \<Rightarrow> None)"

text \<open>
  The date filter, between midnight of 2004-01-01 and midnight of 2020-12-31; \<open>filter\<close>
  drops a row whose condition is \<open>NA\<close>.
\<close>

definition ts_key :: "timestamp \<Rightarrow> int \<times> nat \<times> nat \<times> nat" where
  "ts_key t = (ts_year t, ts_month t, ts_day t, ts_second t)"

definition in_date_range :: "timestamp option \<Rightarrow> bool" where
  "in_date_range d =
     (case d of None \<Rightarrow> False
      | Some t \<Rightarrow> (2004, 1, 1, 0) \<le> ts_key t \<and> ts_key t \<le> (2020, 12, 31, 0))"

definition districts :: "string list" where
  "districts =
     [''001'', ''002'', ''003'', ''004'', ''005'', ''006'', ''007'', ''008'', ''009'',
      ''010'', ''011'', ''012'', ''013'', ''014'', ''015'', ''016'', ''017'', ''018'',
      ''019'', ''020'', ''021'', ''022'', ''023'', ''024'', ''025'']"

definition district_mapping :: "(string \<times> string) list" where
  "district_mapping = [(''013'', ''012''), (''021'', ''002''), (''023'', ''019'')]"

definition recode :: "string \<Rightarrow> string" where
  "recode d = (case map_of district_mapping d of Some d' \<Rightarrow> d' | None \<Rightarrow> d)"

definition violent_types :: "string list" where
  "violent_types =
     [''ROBBERY'', ''CRIMINAL SEXUAL ASSAULT'', ''OFFENSE INVOLVING CHILDREN'',
      ''CRIM SEXUAL ASSAULT'', ''ASSAULT'', ''SEX OFFENSE'', ''BATTERY'', ''HOMICIDE'',
      ''STALKING'', ''KIDNAPPING'', ''INTIMIDATION'']"

definition property_types :: "string list" where
  "property_types =
     [''THEFT'', ''DECEPTIVE PRACTICE'', ''BURGLARY'', ''MOTOR VEHICLE THEFT'',
      ''CRIMINAL TRESPASS'', ''CRIMINAL DAMAGE'', ''ARSON'']"

definition drug_types :: "string list" where
  "drug_types = [''NARCOTICS'', ''OTHER NARCOTIC VIOLATION'']"

definition public_order_types :: "string list" where
  "public_order_types =
     [''WEAPONS VIOLATION'', ''LIQUOR LAW VIOLATION'', ''PUBLIC PEACE VIOLATION'',
      ''PROSTITUTION'', ''GAMBLING'', ''INTERFERENCE WITH PUBLIC OFFICER'', ''OBSCENITY'',
      ''PUBLIC INDECENCY'']"

definition administrative_types :: "string list" where
  "administrative_types =
     [''NON-CRIMINAL'', ''NON - CRIMINAL'', ''NON-CRIMINAL (SUBJECT SPECIFIED)'',
      ''CONCEALED CARRY LICENSE VIOLATION'', ''HUMAN TRAFFICKING'', ''OTHER OFFENSE'']"

text \<open>The \<open>case_when\<close> of step 16: the first branch whose set holds the type decides.\<close>

definition categorise :: "string \<Rightarrow> string" where
  "categorise primary_type =
     (if primary_type \<in> set violent_types then ''Violent Crime''
      else if primary_type \<in> set property_types then ''Property Crime''
      else if primary_type \<in> set drug_types then ''Drug-Related Crime''
      else if primary_type \<in> set public_order_types then ''Public Order Crime''
      else if primary_type \<in> set administrative_types then ''Administrative or Non-Criminal''
      else ''Other'')"

text \<open>
  Steps 5 to 16 of the script: format the district, convert the date, filter on the date,
  select the columns, keep the listed districts, recode the deprecated ones, add the
  category.
\<close>

definition crime_units :: "crime_csv_row list \<Rightarrow> error + crime_unit list" where
  "crime_units crime_data =
     (case sprintf_column (map csv_District crime_data) of
        Inl e \<Rightarrow> Inl e
      | Inr formatted \<Rightarrow>
          Inr (concat (map (\<lambda>(d, r).
            case mdy_hms (csv_Date r) of
              None \<Rightarrow> []
            | Some t \<Rightarrow>
                if in_date_range (Some t) \<and> d \<in> set districts
                then [\<lparr>Date = WellFormed t, ID = csv_ID r, District = recode d,
                       Primary_Type = csv_Primary_Type r,
                       Crime_Category = categorise (csv_Primary_Type r)\<rparr>]
                else []) (zip formatted crime_data))))"

section \<open>Steps 5 to 8 of the notebooks: crime counts and rates\<close>

text \<open>
  \<open>pd.to_datetime(column, errors=...)\<close>: with \<open>errors='raise'\<close>, the default, the first
  cell that fails to parse raises; with \<open>errors='coerce'\<close>, which both notebooks pass, such
  a cell becomes \<open>NaT\<close>, here \<open>None\<close>.
\<close>

datatype errors_arg = errors_raise | errors_coerce

fun to_datetime :: "errors_arg \<Rightarrow> date_cell list \<Rightarrow> error + timestamp option list" where
  "to_datetime errors [] = Inr []"
| "to_datetime errors (WellFormed t # cs) =
     (case to_datetime errors cs of Inl e \<Rightarrow> Inl e | Inr ds \<Rightarrow> Inr (Some t # ds))"
| "to_datetime errors (Malformed s # cs) =
     (case errors of
        errors_raise \<Rightarrow> Inl (ParserError s)
      | errors_coerce \<Rightarrow>
          (case to_datetime errors cs of Inl e \<Rightarrow> Inl e | Inr ds \<Rightarrow> Inr (None # ds)))"

record crime_dated =
  cd_District :: string
  cd_year :: int
  cd_month :: nat
  cd_Crime_Category :: string

text \<open>
  The year and month columns and the filter on the year. The year of \<open>NaT\<close> is NaN, both
  comparisons with it are false, and the row is dropped.
\<close>

definition crime_filtered :: "int \<Rightarrow> int \<Rightarrow> (timestamp option \<times> crime_unit) list \<Rightarrow> crime_dated list" where
  "crime_filtered lo hi rows =
     concat (map (\<lambda>(d, c).
       case d of
         None \<Rightarrow> []
       | Some t \<Rightarrow>
           if lo \<le> ts_year t \<and> ts_year t \<le> hi
           then [\<lparr>cd_District = District c, cd_year = ts_year t, cd_month = ts_month t,
                  cd_Crime_Category = Crime_Category c\<rparr>]
           else []) rows)"

record count_row =
  cnt_District :: string
  cnt_year :: int
  cnt_month :: nat
  cnt_counts :: "(string \<times> nat) list"

text \<open>
  \<open>groupby(['District', 'year', 'month', 'Crime_Category']).size().unstack(fill_value=0)\<close>:
  one row for each district, year and month of the data, one count column for each
  category of the data (and for no other), 0 where a group is empty. The result is the
  list of the count columns and the rows.
\<close>

definition crime_counts :: "crime_dated list \<Rightarrow> string list \<times> count_row list" where
  "crime_counts rows =
     (let columns = group_keys cd_Crime_Category rows in
      (columns,
       map (\<lambda>(d, y, m).
          \<lparr>cnt_District = d, cnt_year = y, cnt_month = m,
           cnt_counts = map (\<lambda>c. (c, length (filter (\<lambda>r. cd_District r = d \<and> cd_year r = y
                               \<and> cd_month r = m \<and> cd_Crime_Category r = c) rows))) columns\<rparr>)
         (group_keys (\<lambda>r. (cd_District r, cd_year r, cd_month r)) rows)))"

record crime_row =
  agg_District :: string
  agg_year :: int
  agg_month :: nat
  counts :: "(string \<times> nat) list"
  Total_Population :: fnum
  rates :: "(string \<times> fnum) list"
  total_crime_rate :: fnum

definition crime_types :: "string list" where
  "crime_types =
     [''Violent Crime'', ''Property Crime'', ''Drug-Related Crime'',
      ''Administrative or Non-Criminal'', ''Public Order Crime'', ''Other'']"

definition total_rate_columns :: "string list" where
  "total_rate_columns =
     [''Violent Crime_rate'', ''Property Crime_rate'', ''Drug-Related Crime_rate'',
      ''Administrative or Non-Criminal_rate'', ''Public Order Crime_rate'', ''Other_rate'']"

text \<open>
  Reading a cell of a row by the name of its column. The rate loop reads count columns
  only after the check that they exist, and the total reads the six rate columns that
  the loop has just written, so the second branch of either function is never taken.
\<close>

definition count_cell :: "(string \<times> nat) list \<Rightarrow> string \<Rightarrow> nat" where
  "count_cell cs c = (case map_of cs c of Some n \<Rightarrow> n | None \<Rightarrow> 0)"

definition rate_cell :: "(string \<times> fnum) list \<Rightarrow> string \<Rightarrow> fnum" where
  "rate_cell rs c = (case map_of rs c of Some x \<Rightarrow> x | None \<Rightarrow> NaN)"

text \<open>
  The loop over \<open>crime_types\<close> that writes the rate columns, and the total rate. Reading
  the count column of a category that the data never had raises \<open>KeyError\<close>, at the first
  such category of the list.
\<close>

definition crime_rate :: "nat \<Rightarrow> fnum \<Rightarrow> fnum" where
  "crime_rate n population = fmul (fdiv (Fin (real n)) population) (Fin 1000)"

definition with_rates :: "count_row \<Rightarrow> fnum \<Rightarrow> crime_row" where
  "with_rates r population =
     (let rs = map (\<lambda>crime_type. (crime_type @ ''_rate'',
                 crime_rate (count_cell (cnt_counts r) crime_type) population)) crime_types
      in \<lparr>agg_District = cnt_District r, agg_year = cnt_year r, agg_month = cnt_month r,
          counts = cnt_counts r, Total_Population = population, rates = rs,
          total_crime_rate = sum_skipna (map (rate_cell rs) total_rate_columns)\<rparr>)"

definition crime_rates :: "string list \<Rightarrow> (count_row \<times> fnum) list \<Rightarrow> error + crime_row list" where
  "crime_rates columns merged =
     (case filter (\<lambda>crime_type. crime_type \<notin> set columns) crime_types of
        crime_type # _ \<Rightarrow> Inl (KeyError crime_type)
      | [] \<Rightarrow> Inr (map (\<lambda>(r, population). with_rates r population) merged))"

text \<open>
  The crime side of the 2010-2020 notebook: the leading zeros are stripped from the
  district of the aggregated rows, and the left merge with the survey table is on district
  and year. A row without a match gets a missing population.
\<close>

definition crime_aggregated_2010_2020 ::
  "crime_unit list \<Rightarrow> district_year_row list \<Rightarrow> error + crime_row list" where
  "crime_aggregated_2010_2020 crime_data district_aggregated =
     (case to_datetime errors_coerce (map Date crime_data) of
        Inl e \<Rightarrow> Inl e
      | Inr dates \<Rightarrow>
          (case crime_counts (crime_filtered 2010 2020 (zip dates crime_data)) of
             (columns, aggregated) \<Rightarrow>
               crime_rates columns
                 (map (\<lambda>(l, m). (l, case m of None \<Rightarrow> NaN
                                      | Some p \<Rightarrow> Total_Population_post_2009 p))
                   (merge_left (\<lambda>l p. cnt_District l = dy_dist_num p \<and> cnt_year l = dy_year p)
                      (map (\<lambda>r. r\<lparr>cnt_District := lstrip0 (cnt_District r)\<rparr>) aggregated)
                      district_aggregated))))"

text \<open>
  The crime side of the 2005-2009 notebook: the leading zeros are stripped before the
  grouping, and the left merge with the survey table is on the district alone.
\<close>

definition crime_aggregated_monthly2005 ::
  "crime_unit list \<Rightarrow> district_row list \<Rightarrow> error + crime_row list" where
  "crime_aggregated_monthly2005 crime_data district_aggregated =
     (case to_datetime errors_coerce (map Date crime_data) of
        Inl e \<Rightarrow> Inl e
      | Inr dates \<Rightarrow>
          (case crime_counts
                  (map (\<lambda>r. r\<lparr>cd_District := lstrip0 (cd_District r)\<rparr>)
                     (crime_filtered 2005 2009 (zip dates crime_data))) of
             (columns, aggregated) \<Rightarrow>
               crime_rates columns
                 (map (\<lambda>(l, m). (l, case m of None \<Rightarrow> NaN | Some p \<Rightarrow> d_Total_Population p))
                   (merge_left (\<lambda>l p. cnt_District l = d_dist_num p) aggregated
                      district_aggregated))))"

section \<open>The pipeline\<close>

text \<open>
  The R step writes the file that both notebooks read; each notebook joins its crime
  table with its own survey table.
\<close>

definition pipeline_2010_2020 ::
  "('g \<Rightarrow> 'g \<Rightarrow> real option) \<Rightarrow> 'g census_tract list \<Rightarrow> 'g police_district list
     \<Rightarrow> (int \<Rightarrow> api_row list) \<Rightarrow> crime_csv_row list \<Rightarrow> error + crime_row list" where
  "pipeline_2010_2020 ov chicago_census cpd_districts api crime_csv =
     (case crime_units crime_csv of
        Inl e \<Rightarrow> Inl e
      | Inr units \<Rightarrow>
          crime_aggregated_2010_2020 units (acs_2010_2020 ov chicago_census cpd_districts api))"

definition pipeline_2005_2009 ::
  "('g \<Rightarrow> 'g \<Rightarrow> real option) \<Rightarrow> 'g census_tract list \<Rightarrow> 'g police_district list
     \<Rightarrow> nhgis_row list \<Rightarrow> crime_csv_row list \<Rightarrow> error + crime_row list" where
  "pipeline_2005_2009 ov tracts police_districts acs2005_2009 crime_csv =
     (case crime_units crime_csv of
        Inl e \<Rightarrow> Inl e
      | Inr units \<Rightarrow>
          crime_aggregated_monthly2005 units
            (acs_2005_2009 ov tracts police_districts acs2005_2009))"

section \<open>Readings of a numeric cell\<close>

text \<open>
  A cell is non-negative when the comparison \<open>x >= 0\<close> holds of it, and positive when
  \<open>x > 0\<close> does: every comparison with NaN is false.
\<close>

definition nonneg :: "fnum \<Rightarrow> bool" where
  "nonneg x = (case x of Fin a \<Rightarrow> 0 \<le> a | PInf \<Rightarrow> True | NInf \<Rightarrow> False | NaN \<Rightarrow> False)"

definition positive :: "fnum \<Rightarrow> bool" where
  "positive x = (case x of Fin a \<Rightarrow> 0 < a | PInf \<Rightarrow> True | NInf \<Rightarrow> False | NaN \<Rightarrow> False)"


section \<open>A small run of the pipeline\<close>

text \<open>
  Two tracts and three district polygons, one of them labelled \<open>31ST\<close>. The first tract
  overlaps districts 22 and 6 and the polygon of district 31, with areas 1, 3 and 4; the
  second lies in district 6, with area 2. Geometries are numbered, and \<open>example_ov\<close> is
  the overlay on them.
\<close>

definition example_ov :: "nat \<Rightarrow> nat \<Rightarrow> real option" where
  "example_ov a b =
     (if a = 1 \<and> b = 22 then Some 1 else if a = 1 \<and> b = 6 then Some 3
      else if a = 1 \<and> b = 31 then Some 4 else if a = 2 \<and> b = 6 then Some 2 else None)"

definition example_tracts :: "nat census_tract list" where
  "example_tracts =
     [\<lparr>geoid10 = ''17031000100'', tract_geometry = 1\<rparr>,
      \<lparr>geoid10 = ''17031000200'', tract_geometry = 2\<rparr>]"

definition example_districts :: "nat police_district list" where
  "example_districts =
     [\<lparr>dist_label = ''22ND'', dist_num = ''22'', district_geometry = 22\<rparr>,
      \<lparr>dist_label = ''6TH'', dist_num = ''6'', district_geometry = 6\<rparr>,
      \<lparr>dist_label = ''31ST'', dist_num = ''31'', district_geometry = 31\<rparr>]"

text \<open>
  The survey: 400 residents in the first tract and 100 in the second (for 2010, and in
  the 2005-2009 file), 800 and 200 for 2011; every other estimate is 0.
\<close>

definition example_api :: "int \<Rightarrow> api_row list" where
  "example_api y =
     (if y = 2010 \<or> y = 2011 then
        [\<lparr>state = ''17'', county = ''031'', tract = ''000100'',
          estimate = (\<lambda>v. if v = B01003_001E then Some (if y = 2010 then 400 else 800)
                           else Some 0)\<rparr>,
         \<lparr>state = ''17'', county = ''031'', tract = ''000200'',
          estimate = (\<lambda>v. if v = B01003_001E then Some (if y = 2010 then 100 else 200)
                           else None)\<rparr>]
      else [])"

definition example_nhgis :: "nhgis_row list" where
  "example_nhgis =
     [\<lparr>STATEA = 17, COUNTYA = 31, TRACTA = 100,
       nhgis_estimate = (\<lambda>v. if v = RK9E001 then Some 400 else Some 0)\<rparr>,
      \<lparr>STATEA = 17, COUNTYA = 31, TRACTA = 200,
       nhgis_estimate = (\<lambda>v. if v = RK9E001 then Some 100 else None)\<rparr>,
      \<lparr>STATEA = 18, COUNTYA = 31, TRACTA = 100,
       nhgis_estimate = (\<lambda>v. Some 7)\<rparr>]"

text \<open>
  The crime file, with \<open>y\<close> the year of most records: one record of each category in
  district 6 in March, one in district 6 in July of the next year, one in the deprecated
  district 13 (recoded to 12, for which the example has no polygon), one in district 31,
  and one with a malformed date.
\<close>

definition example_crime :: "int \<Rightarrow> crime_csv_row list" where
  "example_crime y =
     [\<lparr>csv_Date = WellFormed \<lparr>ts_year = y, ts_month = 3, ts_day = 5, ts_second = 0\<rparr>,
       csv_ID = 1, csv_District = Some 6, csv_Primary_Type = ''ROBBERY''\<rparr>,
      \<lparr>csv_Date = WellFormed \<lparr>ts_year = y, ts_month = 3, ts_day = 6, ts_second = 60\<rparr>,
       csv_ID = 2, csv_District = Some 6, csv_Primary_Type = ''THEFT''\<rparr>,
      \<lparr>csv_Date = WellFormed \<lparr>ts_year = y, ts_month = 3, ts_day = 7, ts_second = 0\<rparr>,
       csv_ID = 3, csv_District = Some 6, csv_Primary_Type = ''NARCOTICS''\<rparr>,
      \<lparr>csv_Date = WellFormed \<lparr>ts_year = y, ts_month = 3, ts_day = 8, ts_second = 0\<rparr>,
       csv_ID = 4, csv_District = Some 6, csv_Primary_Type = ''GAMBLING''\<rparr>,
      \<lparr>csv_Date = WellFormed \<lparr>ts_year = y, ts_month = 3, ts_day = 9, ts_second = 0\<rparr>,
       csv_ID = 5, csv_District = Some 6, csv_Primary_Type = ''OTHER OFFENSE''\<rparr>,
      \<lparr>csv_Date = WellFormed \<lparr>ts_year = y, ts_month = 3, ts_day = 10, ts_second = 0\<rparr>,
       csv_ID = 6, csv_District = Some 6, csv_Primary_Type = ''RITUALISM''\<rparr>,
      \<lparr>csv_Date = WellFormed \<lparr>ts_year = y + 1, ts_month = 7, ts_day = 1, ts_second = 0\<rparr>,
       csv_ID = 7, csv_District = Some 6, csv_Primary_Type = ''THEFT''\<rparr>,
      \<lparr>csv_Date = WellFormed \<lparr>ts_year = y, ts_month = 3, ts_day = 11, ts_second = 0\<rparr>,
       csv_ID = 8, csv_District = Some 13, csv_Primary_Type = ''THEFT''\<rparr>,
      \<lparr>csv_Date = WellFormed \<lparr>ts_year = y, ts_month = 3, ts_day = 12, ts_second = 0\<rparr>,
       csv_ID = 9, csv_District = Some 31, csv_Primary_Type = ''THEFT''\<rparr>,
      \<lparr>csv_Date = Malformed ''13/45/2010'',
       csv_ID = 10, csv_District = Some 6, csv_Primary_Type = ''THEFT''\<rparr>]"



text \<open>
  The district table of the example with the third row, numbered 31, under the label
  \<open>31\<close> instead of \<open>31ST\<close>.
\<close>

definition mislabelled_districts :: "nat police_district list" where
  "mislabelled_districts =
     [\<lparr>dist_label = ''22ND'', dist_num = ''22'', district_geometry = 22\<rparr>,
      \<lparr>dist_label = ''6TH'', dist_num = ''6'', district_geometry = 6\<rparr>,
      \<lparr>dist_label = ''31'', dist_num = ''31'', district_geometry = 31\<rparr>]"

text \<open>The tables that the two notebooks give on this input, for the years 2010 and 2005.\<close>

definition example_table_2010 :: "crime_row list" where
  "example_table_2010 =
     [\<lparr>agg_District = ''6'', agg_year = 2010, agg_month = 3,
       counts = [(''Administrative or Non-Criminal'', 1), (''Drug-Related Crime'', 1),
                 (''Other'', 1), (''Property Crime'', 1), (''Public Order Crime'', 1),
                 (''Violent Crime'', 1)],
       Total_Population = Fin 400,
       rates = [(''Violent Crime_rate'', Fin (5 / 2)), (''Property Crime_rate'', Fin (5 / 2)),
                (''Drug-Related Crime_rate'', Fin (5 / 2)),
                (''Administrative or Non-Criminal_rate'', Fin (5 / 2)),
                (''Public Order Crime_rate'', Fin (5 / 2)), (''Other_rate'', Fin (5 / 2))],
       total_crime_rate = Fin 15\<rparr>,
      \<lparr>agg_District = ''6'', agg_year = 2011, agg_month = 7,
       counts = [(''Administrative or Non-Criminal'', 0), (''Drug-Related Crime'', 0),
                 (''Other'', 0), (''Property Crime'', 1), (''Public Order Crime'', 0),
                 (''Violent Crime'', 0)],
       Total_Population = Fin 800,
       rates = [(''Violent Crime_rate'', Fin 0), (''Property Crime_rate'', Fin (5 / 4)),
                (''Drug-Related Crime_rate'', Fin 0),
                (''Administrative or Non-Criminal_rate'', Fin 0),
                (''Public Order Crime_rate'', Fin 0), (''Other_rate'', Fin 0)],
       total_crime_rate = Fin (5 / 4)\<rparr>,
      \<lparr>agg_District = ''12'', agg_year = 2010, agg_month = 3,
       counts = [(''Administrative or Non-Criminal'', 0), (''Drug-Related Crime'', 0),
                 (''Other'', 0), (''Property Crime'', 1), (''Public Order Crime'', 0),
                 (''Violent Crime'', 0)],
       Total_Population = NaN,
       rates = [(''Violent Crime_rate'', NaN), (''Property Crime_rate'', NaN),
                (''Drug-Related Crime_rate'', NaN),
                (''Administrative or Non-Criminal_rate'', NaN),
                (''Public Order Crime_rate'', NaN), (''Other_rate'', NaN)],
       total_crime_rate = Fin 0\<rparr>]"

definition example_table_2005 :: "crime_row list" where
  "example_table_2005 =
     [\<lparr>agg_District = ''12'', agg_year = 2005, agg_month = 3,
       counts = [(''Administrative or Non-Criminal'', 0), (''Drug-Related Crime'', 0),
                 (''Other'', 0), (''Property Crime'', 1), (''Public Order Crime'', 0),
                 (''Violent Crime'', 0)],
       Total_Population = NaN,
       rates = [(''Violent Crime_rate'', NaN), (''Property Crime_rate'', NaN),
                (''Drug-Related Crime_rate'', NaN),
                (''Administrative or Non-Criminal_rate'', NaN),
                (''Public Order Crime_rate'', NaN), (''Other_rate'', NaN)],
       total_crime_rate = Fin 0\<rparr>,
      \<lparr>agg_District = ''6'', agg_year = 2005, agg_month = 3,
       counts = [(''Administrative or Non-Criminal'', 1), (''Drug-Related Crime'', 1),
                 (''Other'', 1), (''Property Crime'', 1), (''Public Order Crime'', 1),
                 (''Violent Crime'', 1)],
       Total_Population = Fin 500,
       rates = [(''Violent Crime_rate'', Fin 2), (''Property Crime_rate'', Fin 2),
                (''Drug-Related Crime_rate'', Fin 2),
                (''Administrative or Non-Criminal_rate'', Fin 2),
                (''Public Order Crime_rate'', Fin 2), (''Other_rate'', Fin 2)],
       total_crime_rate = Fin 12\<rparr>,
      \<lparr>agg_District = ''6'', agg_year = 2006, agg_month = 7,
       counts = [(''Administrative or Non-Criminal'', 0), (''Drug-Related Crime'', 0),
                 (''Other'', 0), (''Property Crime'', 1), (''Public Order Crime'', 0),
                 (''Violent Crime'', 0)],
       Total_Population = Fin 500,
       rates = [(''Violent Crime_rate'', Fin 0), (''Property Crime_rate'', Fin 2),
                (''Drug-Related Crime_rate'', Fin 0),
                (''Administrative or Non-Criminal_rate'', Fin 0),
                (''Public Order Crime_rate'', Fin 0), (''Other_rate'', Fin 0)],
       total_crime_rate = Fin 2\<rparr>]"

section \<open>The proportions of a tract\<close>

lemma foldl_fadd_Fin:
  "foldl fadd (Fin s) (map (\<lambda>x. Fin (f x)) xs) = Fin (s + sum_list (map f xs))"
  by (induction xs arbitrary: s) (simp_all add: add.assoc)

lemma fsum_Fin: "fsum (map (\<lambda>x. Fin (f x)) xs) = Fin (sum_list (map f xs))"
  by (simp add: fsum_def foldl_fadd_Fin)

lemma sum_list_divide:
  "sum_list (map (\<lambda>x. f x / c) xs) = sum_list (map f xs) / (c::real)"
  by (induction xs) (simp_all add: add_divide_distrib)

lemma proportions_of_tract:
  assumes "total_tract_area rows t \<noteq> 0"
  shows "map proportion (filter (\<lambda>w. w_tract w = t) (areal_weights rows)) =
         map (\<lambda>r. Fin (intersection_area r / total_tract_area rows t))
             (filter (\<lambda>r. ov_tract r = t) rows)"
proof -
  have "filter (\<lambda>w. w_tract w = t) (areal_weights rows) =
        map (\<lambda>r. \<lparr>w_tract = ov_tract r, w_dist_num = ov_dist_num r,
               proportion = fdiv (Fin (intersection_area r))
                                 (Fin (total_tract_area rows (ov_tract r)))\<rparr>)
            (filter (\<lambda>r. ov_tract r = t) rows)"
    by (simp add: areal_weights_def filter_map o_def)
  then show ?thesis using assms
    by (simp add: o_def cong: map_cong)
qed

lemma proportions_sum:
  assumes "total_tract_area rows t \<noteq> 0"
  shows "fsum (map proportion (filter (\<lambda>w. w_tract w = t) (areal_weights rows))) = Fin 1"
proof -
  let ?T = "total_tract_area rows t"
  let ?rs = "filter (\<lambda>r. ov_tract r = t) rows"
  have "fsum (map proportion (filter (\<lambda>w. w_tract w = t) (areal_weights rows))) =
        Fin (sum_list (map (\<lambda>r. intersection_area r / ?T) ?rs))"
    using proportions_of_tract [OF assms] by (simp add: fsum_Fin)
  also have "sum_list (map (\<lambda>r. intersection_area r / ?T) ?rs) =
        sum_list (map intersection_area ?rs) / ?T"
    by (rule sum_list_divide)
  also have "\<dots> = 1" using assms by (simp add: total_tract_area_def)
  finally show ?thesis .
qed

section \<open>The rows of the tables\<close>

lemma merge_left_set:
  assumes "(l, m) \<in> set (merge_left on left right)"
  shows "l \<in> set left \<and>
         (case m of None \<Rightarrow> filter (on l) right = []
          | Some p \<Rightarrow> p \<in> set right \<and> on l p)"
proof -
  from assms obtain x where x: "x \<in> set left"
    and in_x: "(l, m) \<in> set (case filter (on x) right of [] \<Rightarrow> [(x, None)]
                               | ms \<Rightarrow> map (\<lambda>m. (x, Some m)) ms)"
    by (auto simp: merge_left_def)
  show ?thesis
  proof (cases "filter (on x) right")
    case Nil
    with in_x x show ?thesis by simp
  next
    case (Cons a as)
    with in_x have "(l, m) \<in> (\<lambda>m. (x, Some m)) ` set (filter (on x) right)"
      by simp
    then obtain p where "l = x" "m = Some p" "p \<in> set right" "on x p"
      by auto
    with x show ?thesis by simp
  qed
qed

lemma crime_rates_Inr:
  assumes "crime_rates columns merged = Inr table"
  shows "set crime_types \<subseteq> set columns \<and> table = map (\<lambda>(r, p). with_rates r p) merged"
proof -
  have "filter (\<lambda>c. c \<notin> set columns) crime_types = []"
    using assms by (auto simp: crime_rates_def split: list.splits)
  then have "set crime_types \<subseteq> set columns"
    by (auto simp: filter_empty_conv)
  moreover have "table = map (\<lambda>(r, p). with_rates r p) merged"
    using assms by (auto simp: crime_rates_def split: list.splits)
  ultimately show ?thesis by simp
qed

lemma crime_units_set:
  assumes "crime_units csv = Inr units" and "u \<in> set units"
  shows "District u \<in> recode ` set districts
         \<and> Crime_Category u = categorise (Primary_Type u)
         \<and> (\<exists>t. Date u = WellFormed t)"
  using assms
  by (auto simp: crime_units_def split: sum.splits option.splits if_splits)

lemma to_datetime_coerce: "to_datetime errors_coerce cs = Inr (map mdy_hms cs)"
proof (induction cs)
  case Nil
  show ?case by simp
next
  case (Cons c cs)
  then show ?case by (cases c) (simp_all add: mdy_hms_def)
qed

lemma crime_filtered_set:
  assumes "c \<in> set (crime_filtered lo hi (zip dates units))"
  shows "\<exists>u \<in> set units. cd_District c = District u \<and> cd_Crime_Category c = Crime_Category u
           \<and> lo \<le> cd_year c \<and> cd_year c \<le> hi"
  using assms
  by (auto simp: crime_filtered_def split: option.splits if_splits dest: set_zip_rightD)

lemma set_group_keys: "set (group_keys key rows) = key ` set rows"
  by (simp add: group_keys_def)

lemma crime_counts_set:
  assumes "crime_counts rows = (columns, aggregated)" and "l \<in> set aggregated"
  shows "set columns = cd_Crime_Category ` set rows
         \<and> map fst (cnt_counts l) = columns
         \<and> (\<exists>c \<in> set rows. cnt_District l = cd_District c \<and> cnt_year l = cd_year c
               \<and> cnt_month l = cd_month c)"
proof -
  have cols: "columns = group_keys cd_Crime_Category rows"
    using assms(1) by (simp add: crime_counts_def Let_def)
  have agg: "aggregated =
      map (\<lambda>(d, y, m).
          \<lparr>cnt_District = d, cnt_year = y, cnt_month = m,
           cnt_counts = map (\<lambda>c. (c, length (filter (\<lambda>r. cd_District r = d \<and> cd_year r = y
                               \<and> cd_month r = m \<and> cd_Crime_Category r = c) rows))) columns\<rparr>)
         (group_keys (\<lambda>r. (cd_District r, cd_year r, cd_month r)) rows)"
    using assms(1) unfolding cols by (auto simp: crime_counts_def Let_def)
  from assms(2) obtain d y m where
    k: "(d, y, m) \<in> set (group_keys (\<lambda>r. (cd_District r, cd_year r, cd_month r)) rows)"
    and l: "l = \<lparr>cnt_District = d, cnt_year = y, cnt_month = m,
           cnt_counts = map (\<lambda>c. (c, length (filter (\<lambda>r. cd_District r = d \<and> cd_year r = y
                               \<and> cd_month r = m \<and> cd_Crime_Category r = c) rows))) columns\<rparr>"
    unfolding agg by auto
  from k obtain c where "c \<in> set rows" "d = cd_District c" "y = cd_year c" "m = cd_month c"
    by (auto simp: set_group_keys)
  with l cols show ?thesis by (auto simp: set_group_keys o_def)
qed


lemma crime_aggregated_2010_2020_row:
  assumes "crime_aggregated_2010_2020 units acs = Inr table" and "r \<in> set table"
  shows "\<exists>l m. r = with_rates l (case m of None \<Rightarrow> NaN | Some p \<Rightarrow> Total_Population_post_2009 p)
           \<and> (case m of
                 None \<Rightarrow> filter (\<lambda>p. cnt_District l = dy_dist_num p \<and> cnt_year l = dy_year p) acs = []
               | Some p \<Rightarrow> p \<in> set acs \<and> cnt_District l = dy_dist_num p \<and> cnt_year l = dy_year p)
           \<and> (\<exists>u \<in> set units. cnt_District l = lstrip0 (District u))
           \<and> set crime_types \<subseteq> set (map fst (cnt_counts l))"
proof -
  let ?filtered = "crime_filtered 2010 2020 (zip (map mdy_hms (map Date units)) units)"
  obtain columns aggregated where cc: "crime_counts ?filtered = (columns, aggregated)"
    by (cases "crime_counts ?filtered")
  let ?on = "\<lambda>l p. cnt_District l = dy_dist_num p \<and> cnt_year l = dy_year p"
  let ?left = "map (\<lambda>r. r\<lparr>cnt_District := lstrip0 (cnt_District r)\<rparr>) aggregated"
  let ?pop = "\<lambda>m. case m of None \<Rightarrow> NaN | Some p \<Rightarrow> Total_Population_post_2009 p"
  have "crime_rates columns (map (\<lambda>(l, m). (l, ?pop m)) (merge_left ?on ?left acs)) = Inr table"
    using assms(1) cc by (simp add: crime_aggregated_2010_2020_def to_datetime_coerce)
  from crime_rates_Inr [OF this]
  have cols: "set crime_types \<subseteq> set columns"
    and table: "table = map (\<lambda>(r, p). with_rates r p)
                  (map (\<lambda>(l, m). (l, ?pop m)) (merge_left ?on ?left acs))"
    by simp_all
  from assms(2) obtain l m where lm: "(l, m) \<in> set (merge_left ?on ?left acs)"
    and r: "r = with_rates l (?pop m)"
    unfolding table by auto
  from merge_left_set [OF lm]
  have l: "l \<in> set ?left"
    and m: "case m of None \<Rightarrow> filter (?on l) acs = [] | Some p \<Rightarrow> p \<in> set acs \<and> ?on l p"
    by simp_all
  from l obtain l0 where l0: "l0 \<in> set aggregated"
    and l_eq: "l = l0\<lparr>cnt_District := lstrip0 (cnt_District l0)\<rparr>"
    by auto
  from crime_counts_set [OF cc l0] obtain c where
    fst_counts: "map fst (cnt_counts l0) = columns"
    and c: "c \<in> set ?filtered" "cnt_District l0 = cd_District c"
    by auto
  from crime_filtered_set [OF c(1)] obtain u where "u \<in> set units" "cd_District c = District u"
    by auto
  with c l_eq have "\<exists>u \<in> set units. cnt_District l = lstrip0 (District u)"
    by auto
  moreover have "set crime_types \<subseteq> set (map fst (cnt_counts l))"
    using cols fst_counts l_eq by simp
  ultimately show ?thesis using r m by blast
qed

lemma crime_aggregated_monthly2005_row:
  assumes "crime_aggregated_monthly2005 units acs = Inr table" and "r \<in> set table"
  shows "\<exists>l m. r = with_rates l (case m of None \<Rightarrow> NaN | Some p \<Rightarrow> d_Total_Population p)
           \<and> (case m of
                 None \<Rightarrow> filter (\<lambda>p. cnt_District l = d_dist_num p) acs = []
               | Some p \<Rightarrow> p \<in> set acs \<and> cnt_District l = d_dist_num p)
           \<and> (\<exists>u \<in> set units. cnt_District l = lstrip0 (District u))
           \<and> set crime_types \<subseteq> set (map fst (cnt_counts l))"
proof -
  let ?filtered = "map (\<lambda>r. r\<lparr>cd_District := lstrip0 (cd_District r)\<rparr>)
                     (crime_filtered 2005 2009 (zip (map mdy_hms (map Date units)) units))"
  obtain columns aggregated where cc: "crime_counts ?filtered = (columns, aggregated)"
    by (cases "crime_counts ?filtered")
  let ?on = "\<lambda>l p. cnt_District l = d_dist_num p"
  let ?pop = "\<lambda>m. case m of None \<Rightarrow> NaN | Some p \<Rightarrow> d_Total_Population p"
  have "crime_rates columns (map (\<lambda>(l, m). (l, ?pop m)) (merge_left ?on aggregated acs)) = Inr table"
    using assms(1) cc by (simp add: crime_aggregated_monthly2005_def to_datetime_coerce)
  from crime_rates_Inr [OF this]
  have cols: "set crime_types \<subseteq> set columns"
    and table: "table = map (\<lambda>(r, p). with_rates r p)
                  (map (\<lambda>(l, m). (l, ?pop m)) (merge_left ?on aggregated acs))"
    by simp_all
  from assms(2) obtain l m where lm: "(l, m) \<in> set (merge_left ?on aggregated acs)"
    and r: "r = with_rates l (?pop m)"
    unfolding table by auto
  from merge_left_set [OF lm]
  have l: "l \<in> set aggregated"
    and m: "case m of None \<Rightarrow> filter (?on l) acs = [] | Some p \<Rightarrow> p \<in> set acs \<and> ?on l p"
    by simp_all
  from crime_counts_set [OF cc l] obtain c where
    fst_counts: "map fst (cnt_counts l) = columns"
    and c: "c \<in> set ?filtered" "cnt_District l = cd_District c"
    by blast
  from c(1) obtain c0 where c0: "c0 \<in> set (crime_filtered 2005 2009 (zip (map mdy_hms (map Date units)) units))"
    and c_eq: "c = c0\<lparr>cd_District := lstrip0 (cd_District c0)\<rparr>"
    by auto
  from crime_filtered_set [OF c0] obtain u where "u \<in> set units" "cd_District c0 = District u"
    by auto
  with c c_eq have "\<exists>u \<in> set units. cnt_District l = lstrip0 (District u)"
    by auto
  moreover have "set crime_types \<subseteq> set (map fst (cnt_counts l))"
    using cols fst_counts by simp
  ultimately show ?thesis using r m by blast
qed


lemma with_rates_simps:
  "agg_District (with_rates l p) = cnt_District l"
  "agg_year (with_rates l p) = cnt_year l"
  "agg_month (with_rates l p) = cnt_month l"
  "counts (with_rates l p) = cnt_counts l"
  "Total_Population (with_rates l p) = p"
  by (simp_all add: with_rates_def Let_def)

lemma rates_with_rates:
  "rates (with_rates l p) =
     map (\<lambda>crime_type. (crime_type @ ''_rate'',
            crime_rate (count_cell (cnt_counts l) crime_type) p)) crime_types"
  by (simp add: with_rates_def Let_def)

lemma total_rate_columns_eq: "total_rate_columns = map (\<lambda>c. c @ ''_rate'') crime_types"
  by (simp add: total_rate_columns_def crime_types_def)

lemma map_of_keyed:
  assumes "inj f" and "x \<in> set xs"
  shows "map_of (map (\<lambda>c. (f c, g c)) xs) (f x) = Some (g x)"
  using assms(2) by (induction xs) (auto simp: inj_eq [OF assms(1)])

lemma rate_cell_with_rates:
  assumes "c \<in> set crime_types"
  shows "map_of (rates (with_rates l p)) (c @ ''_rate'')
           = Some (crime_rate (count_cell (cnt_counts l) c) p)"
proof -
  have "inj (\<lambda>c::string. c @ ''_rate'')"
    by (simp add: inj_on_def)
  from map_of_keyed [OF this assms] show ?thesis
    by (simp add: rates_with_rates)
qed

lemma total_with_rates:
  "total_crime_rate (with_rates l p) =
     sum_skipna (map (\<lambda>c. crime_rate (count_cell (cnt_counts l) c) p) crime_types)"
proof -
  have "map (rate_cell (rates (with_rates l p))) total_rate_columns =
        map (\<lambda>c. crime_rate (count_cell (cnt_counts l) c) p) crime_types"
    by (simp add: total_rate_columns_eq rate_cell_def rate_cell_with_rates)
  moreover have "total_crime_rate (with_rates l p) =
      sum_skipna (map (rate_cell (rates (with_rates l p))) total_rate_columns)"
    by (simp add: with_rates_def Let_def)
  ultimately show ?thesis by simp
qed

lemma crime_rate_Fin: "p \<noteq> 0 \<Longrightarrow> crime_rate n (Fin p) = Fin (real n / p * 1000)"
  by (simp add: crime_rate_def)

lemma crime_rate_NaN: "crime_rate n NaN = NaN"
  by (simp add: crime_rate_def)

lemma sum_skipna_Fin: "sum_skipna (map (\<lambda>x. Fin (f x)) xs) = Fin (sum_list (map f xs))"
  by (simp add: sum_skipna_def fsum_Fin)

lemma sum_skipna_NaN: "sum_skipna (map (\<lambda>x. NaN) xs) = Fin 0"
  by (induction xs) (simp_all add: sum_skipna_def fsum_def)

lemma pipeline_2010_2020_row:
  assumes "pipeline_2010_2020 ov tracts ds api csv = Inr table" and "r \<in> set table"
  shows "\<exists>l m d. r = with_rates l (case m of None \<Rightarrow> NaN | Some p \<Rightarrow> Total_Population_post_2009 p)
           \<and> (case m of
                 None \<Rightarrow> filter (\<lambda>p. cnt_District l = dy_dist_num p \<and> cnt_year l = dy_year p)
                           (acs_2010_2020 ov tracts ds api) = []
               | Some p \<Rightarrow> p \<in> set (acs_2010_2020 ov tracts ds api)
                           \<and> cnt_District l = dy_dist_num p \<and> cnt_year l = dy_year p)
           \<and> d \<in> set districts \<and> cnt_District l = lstrip0 (recode d)
           \<and> set crime_types \<subseteq> set (map fst (cnt_counts l))"
proof -
  from assms(1) obtain units where units: "crime_units csv = Inr units"
    and agg: "crime_aggregated_2010_2020 units (acs_2010_2020 ov tracts ds api) = Inr table"
    by (auto simp: pipeline_2010_2020_def split: sum.splits)
  from crime_aggregated_2010_2020_row [OF agg assms(2)] obtain l m u where
    r: "r = with_rates l (case m of None \<Rightarrow> NaN | Some p \<Rightarrow> Total_Population_post_2009 p)"
    and m: "case m of
              None \<Rightarrow> filter (\<lambda>p. cnt_District l = dy_dist_num p \<and> cnt_year l = dy_year p)
                        (acs_2010_2020 ov tracts ds api) = []
            | Some p \<Rightarrow> p \<in> set (acs_2010_2020 ov tracts ds api)
                        \<and> cnt_District l = dy_dist_num p \<and> cnt_year l = dy_year p"
    and u: "u \<in> set units" "cnt_District l = lstrip0 (District u)"
    and cols: "set crime_types \<subseteq> set (map fst (cnt_counts l))"
    by blast
  from crime_units_set [OF units u(1)] obtain d where d: "d \<in> set districts" "District u = recode d"
    by auto
  show ?thesis
    by (rule exI [of _ l], rule exI [of _ m], rule exI [of _ d]) (use r m u cols d in simp)
qed

lemma pipeline_2005_2009_row:
  assumes "pipeline_2005_2009 ov tracts ds nhgis csv = Inr table" and "r \<in> set table"
  shows "\<exists>l m d. r = with_rates l (case m of None \<Rightarrow> NaN | Some p \<Rightarrow> d_Total_Population p)
           \<and> (case m of
                 None \<Rightarrow> filter (\<lambda>p. cnt_District l = d_dist_num p)
                           (acs_2005_2009 ov tracts ds nhgis) = []
               | Some p \<Rightarrow> p \<in> set (acs_2005_2009 ov tracts ds nhgis)
                           \<and> cnt_District l = d_dist_num p)
           \<and> d \<in> set districts \<and> cnt_District l = lstrip0 (recode d)
           \<and> set crime_types \<subseteq> set (map fst (cnt_counts l))"
proof -
  from assms(1) obtain units where units: "crime_units csv = Inr units"
    and agg: "crime_aggregated_monthly2005 units (acs_2005_2009 ov tracts ds nhgis) = Inr table"
    by (auto simp: pipeline_2005_2009_def split: sum.splits)
  from crime_aggregated_monthly2005_row [OF agg assms(2)] obtain l m u where
    r: "r = with_rates l (case m of None \<Rightarrow> NaN | Some p \<Rightarrow> d_Total_Population p)"
    and m: "case m of
              None \<Rightarrow> filter (\<lambda>p. cnt_District l = d_dist_num p)
                        (acs_2005_2009 ov tracts ds nhgis) = []
            | Some p \<Rightarrow> p \<in> set (acs_2005_2009 ov tracts ds nhgis)
                        \<and> cnt_District l = d_dist_num p"
    and u: "u \<in> set units" "cnt_District l = lstrip0 (District u)"
    and cols: "set crime_types \<subseteq> set (map fst (cnt_counts l))"
    by blast
  from crime_units_set [OF units u(1)] obtain d where d: "d \<in> set districts" "District u = recode d"
    by auto
  show ?thesis
    by (rule exI [of _ l], rule exI [of _ m], rule exI [of _ d]) (use r m u cols d in simp)
qed

lemma pipeline_row_with_rates:
  assumes "pipeline_2010_2020 ov tracts ds api csv = Inr table
           \<or> pipeline_2005_2009 ov' tracts' ds' nhgis csv' = Inr table"
    and "r \<in> set table"
  shows "\<exists>l. r = with_rates l (Total_Population r)
             \<and> set crime_types \<subseteq> set (map fst (cnt_counts l))"
proof -
  have "\<exists>l pop. r = with_rates l pop \<and> set crime_types \<subseteq> set (map fst (cnt_counts l))"
  proof (rule disjE [OF assms(1)])
    assume "pipeline_2010_2020 ov tracts ds api csv = Inr table"
    from pipeline_2010_2020_row [OF this assms(2)] show ?thesis by blast
  next
    assume "pipeline_2005_2009 ov' tracts' ds' nhgis csv' = Inr table"
    from pipeline_2005_2009_row [OF this assms(2)] show ?thesis by blast
  qed
  then obtain l pop where "r = with_rates l pop"
    "set crime_types \<subseteq> set (map fst (cnt_counts l))"
    by blast
  then show ?thesis by (auto simp: with_rates_simps)
qed

lemma with_rates_nonneg:
  assumes "0 < p"
  shows "(\<forall>x \<in> snd ` set (rates (with_rates l (Fin p))). nonneg x)
         \<and> nonneg (total_crime_rate (with_rates l (Fin p)))"
proof -
  have p: "p \<noteq> 0" using assms by simp
  have "0 \<le> sum_list (map (\<lambda>c. real (count_cell (cnt_counts l) c) / p * 1000) crime_types)"
    using assms by (intro sum_list_nonneg) auto
  then have "nonneg (total_crime_rate (with_rates l (Fin p)))"
    by (simp add: total_with_rates crime_rate_Fin [OF p] sum_skipna_Fin nonneg_def)
  moreover have "\<forall>x \<in> snd ` set (rates (with_rates l (Fin p))). nonneg x"
    using assms by (auto simp: rates_with_rates crime_rate_Fin [OF p] nonneg_def)
  ultimately show ?thesis by simp
qed

lemma count_cell_present:
  assumes "c \<in> set (map fst cs)"
  shows "\<exists>n. map_of cs c = Some n \<and> count_cell cs c = n"
proof -
  from assms have "map_of cs c \<noteq> None"
    by (simp add: map_of_eq_None_iff)
  then show ?thesis by (auto simp: count_cell_def)
qed

lemma rate_cells_with_rates:
  "map (rate_cell (rates (with_rates l p))) total_rate_columns =
     map (\<lambda>c. crime_rate (count_cell (cnt_counts l) c) p) crime_types"
  by (simp add: total_rate_columns_eq rate_cell_def rate_cell_with_rates)

lemma total_is_sum_skipna:
  "total_crime_rate (with_rates l p) =
     sum_skipna (map (rate_cell (rates (with_rates l p))) total_rate_columns)"
  by (simp add: with_rates_def Let_def)

lemma district_aggregated_post_2009_key:
  assumes "p \<in> set (district_aggregated_post_2009 rows)"
    and "q \<in> set (district_aggregated_post_2009 rows)"
    and "dy_dist_num p = dy_dist_num q" and "dy_year p = dy_year q"
  shows "p = q"
  using assms by (auto simp: district_aggregated_post_2009_def)

lemma district_aggregated2005_key:
  assumes "p \<in> set (district_aggregated2005 rows)"
    and "q \<in> set (district_aggregated2005 rows)"
    and "d_dist_num p = d_dist_num q"
  shows "p = q"
  using assms by (auto simp: district_aggregated2005_def Let_def)

lemma find_unique:
  assumes "p \<in> set xs" and "P p" and "\<And>q. q \<in> set xs \<Longrightarrow> P q \<Longrightarrow> q = p"
  shows "find P xs = Some p"
proof (cases "find P xs")
  case None
  with assms(1,2) show ?thesis by (auto simp: find_None_iff)
next
  case (Some q)
  then have "q \<in> set xs \<and> P q"
    by (auto simp: find_Some_iff)
  with assms(3) Some show ?thesis by simp
qed

lemma population_2010_2020:
  assumes "pipeline_2010_2020 ov tracts ds api csv = Inr table" and "r \<in> set table"
  shows "Total_Population r =
           (case find (\<lambda>p. dy_dist_num p = agg_District r \<and> dy_year p = agg_year r)
                      (acs_2010_2020 ov tracts ds api) of
              None \<Rightarrow> NaN
            | Some p \<Rightarrow> Total_Population_post_2009 p)"
proof -
  let ?acs = "acs_2010_2020 ov tracts ds api"
  from pipeline_2010_2020_row [OF assms] obtain l m where
    r: "r = with_rates l (case m of None \<Rightarrow> NaN | Some p \<Rightarrow> Total_Population_post_2009 p)"
    and m: "case m of
              None \<Rightarrow> filter (\<lambda>p. cnt_District l = dy_dist_num p \<and> cnt_year l = dy_year p) ?acs = []
            | Some p \<Rightarrow> p \<in> set ?acs \<and> cnt_District l = dy_dist_num p \<and> cnt_year l = dy_year p"
    by blast
  have key: "agg_District r = cnt_District l" "agg_year r = cnt_year l"
    by (subst r, simp add: with_rates_simps)+
  let ?P = "\<lambda>p. dy_dist_num p = agg_District r \<and> dy_year p = agg_year r"
  show ?thesis
  proof (cases m)
    case None
    with m have "\<forall>p \<in> set ?acs. \<not> ?P p"
      using key by (auto simp: filter_empty_conv)
    then have "find ?P ?acs = None"
      by (simp add: find_None_iff)
    moreover have "Total_Population r = NaN"
      by (subst r) (simp add: None with_rates_simps)
    ultimately show ?thesis by simp
  next
    case (Some p)
    with m have p: "p \<in> set ?acs" "?P p"
      using key by auto
    have "find ?P ?acs = Some p"
    proof (rule find_unique [where P = "?P"])
      show "p \<in> set ?acs" by (rule p(1))
      show "?P p" by (rule p(2))
      fix q assume "q \<in> set ?acs" "?P q"
      with p show "q = p"
        unfolding acs_2010_2020_def by (intro district_aggregated_post_2009_key) auto
    qed
    moreover have "Total_Population r = Total_Population_post_2009 p"
      by (subst r) (simp add: Some with_rates_simps)
    ultimately show ?thesis by simp
  qed
qed

lemma population_2005_2009:
  assumes "pipeline_2005_2009 ov tracts ds nhgis csv = Inr table" and "r \<in> set table"
  shows "Total_Population r =
           (case find (\<lambda>p. d_dist_num p = agg_District r) (acs_2005_2009 ov tracts ds nhgis) of
              None \<Rightarrow> NaN
            | Some p \<Rightarrow> d_Total_Population p)"
proof -
  let ?acs = "acs_2005_2009 ov tracts ds nhgis"
  from pipeline_2005_2009_row [OF assms] obtain l m where
    r: "r = with_rates l (case m of None \<Rightarrow> NaN | Some p \<Rightarrow> d_Total_Population p)"
    and m: "case m of
              None \<Rightarrow> filter (\<lambda>p. cnt_District l = d_dist_num p) ?acs = []
            | Some p \<Rightarrow> p \<in> set ?acs \<and> cnt_District l = d_dist_num p"
    by blast
  have key: "agg_District r = cnt_District l"
    by (subst r) (simp add: with_rates_simps)
  let ?P = "\<lambda>p. d_dist_num p = agg_District r"
  show ?thesis
  proof (cases m)
    case None
    with m have "\<forall>p \<in> set ?acs. \<not> ?P p"
      using key by (auto simp: filter_empty_conv)
    then have "find ?P ?acs = None"
      by (simp add: find_None_iff)
    moreover have "Total_Population r = NaN"
      by (subst r) (simp add: None with_rates_simps)
    ultimately show ?thesis by simp
  next
    case (Some p)
    with m have p: "p \<in> set ?acs" "?P p"
      using key by auto
    have "find ?P ?acs = Some p"
    proof (rule find_unique [where P = "?P"])
      show "p \<in> set ?acs" by (rule p(1))
      show "?P p" by (rule p(2))
      fix q assume "q \<in> set ?acs" "?P q"
      with p show "q = p"
        unfolding acs_2005_2009_def by (intro district_aggregated2005_key) auto
    qed
    moreover have "Total_Population r = d_Total_Population p"
      by (subst r) (simp add: Some with_rates_simps)
    ultimately show ?thesis by simp
  qed
qed

lemma rates_columns:
  assumes "pipeline_2010_2020 ov tracts ds api csv = Inr table
           \<or> pipeline_2005_2009 ov' tracts' ds' nhgis csv' = Inr table"
    and "r \<in> set table"
  shows "map fst (rates r) = total_rate_columns"
proof -
  from pipeline_row_with_rates [OF assms] obtain l
    where "r = with_rates l (Total_Population r)" by blast
  then have "rates r = rates (with_rates l (Total_Population r))" by simp
  then show ?thesis
    by (simp add: rates_with_rates total_rate_columns_eq o_def)
qed

lemma positive_find:
  assumes "\<And>p q. p \<in> set xs \<Longrightarrow> q \<in> set xs \<Longrightarrow> P p \<Longrightarrow> P q \<Longrightarrow> p = q"
  shows "positive (case find P xs of None \<Rightarrow> NaN | Some p \<Rightarrow> f p)
           \<longleftrightarrow> (\<exists>p \<in> set xs. P p \<and> positive (f p))"
proof (cases "find P xs")
  case None
  then have "\<not> (\<exists>p \<in> set xs. P p)"
    by (auto simp: find_None_iff)
  with None show ?thesis by (simp add: positive_def)
next
  case (Some p)
  then have p: "p \<in> set xs" "P p"
    by (auto simp: find_Some_iff)
  have "(\<exists>q \<in> set xs. P q \<and> positive (f q)) \<longleftrightarrow> positive (f p)"
  proof
    assume "\<exists>q \<in> set xs. P q \<and> positive (f q)"
    then obtain q where q: "q \<in> set xs" "P q" "positive (f q)" by blast
    from assms [OF q(1) p(1) q(2) p(2)] q(3) show "positive (f p)" by simp
  next
    assume "positive (f p)"
    with p show "\<exists>q \<in> set xs. P q \<and> positive (f q)" by blast
  qed
  then show ?thesis by (simp add: Some)
qed

lemma normalised_districts:
  assumes "d \<in> set districts"
  shows "lstrip0 (recode d) \<in> set (map str_nat ([1..<13] @ [14..<21] @ [22, 24, 25]))"
proof -
  have "list_all (\<lambda>d. lstrip0 (recode d)
          \<in> set (map str_nat ([1..<13] @ [14..<21] @ [22, 24, 25]))) districts"
    by code_simp
  with assms show ?thesis by (simp add: list_all_iff)
qed

lemma not_district_31: "''31'' \<notin> set (map str_nat ([1..<13] @ [14..<21] @ [22, 24, 25]))"
  by code_simp

lemma pipeline_row_district:
  assumes "pipeline_2010_2020 ov tracts ds api csv = Inr table
           \<or> pipeline_2005_2009 ov' tracts' ds' nhgis csv' = Inr table"
    and "r \<in> set table"
  shows "\<exists>d \<in> set districts. agg_District r = lstrip0 (recode d)"
proof -
  have "\<exists>l pop d. r = with_rates l pop \<and> d \<in> set districts \<and> cnt_District l = lstrip0 (recode d)"
  proof (rule disjE [OF assms(1)])
    assume "pipeline_2010_2020 ov tracts ds api csv = Inr table"
    from pipeline_2010_2020_row [OF this assms(2)] show ?thesis by blast
  next
    assume "pipeline_2005_2009 ov' tracts' ds' nhgis csv' = Inr table"
    from pipeline_2005_2009_row [OF this assms(2)] show ?thesis by blast
  qed
  then obtain l pop d where "r = with_rates l pop" "d \<in> set districts"
    "cnt_District l = lstrip0 (recode d)"
    by blast
  then show ?thesis by (auto simp: with_rates_simps)
qed

lemma merge_inner_set:
  assumes "(a, b) \<in> set (merge_inner on xs ys)"
  shows "a \<in> set xs \<and> b \<in> set ys \<and> on a b"
  using assms by (auto simp: merge_inner_def)

lemma overlay_dist_num:
  assumes "r \<in> set (overlay ov tracts ds)"
  shows "\<exists>d \<in> set ds. ov_dist_num r = dist_num d"
  using assms by (auto simp: overlay_def split: option.splits)

lemma areal_weights_dist_num:
  assumes "w \<in> set (areal_weights rows)"
  shows "\<exists>r \<in> set rows. w_dist_num w = ov_dist_num r"
  using assms by (auto simp: areal_weights_def)

lemma tracts_to_districts_dist_num:
  assumes "w \<in> set (tracts_to_districts_2010 ov tracts ds)
           \<or> w \<in> set (tracts_to_districts_2005 ov tracts ds)"
  shows "\<exists>d \<in> set ds. dist_label d \<noteq> ''31ST'' \<and> w_dist_num w = dist_num d"
proof -
  from assms have "w \<in> set (areal_weights (overlay ov tracts (remove_31ST ds)))"
    by (auto simp: tracts_to_districts_2010_def tracts_to_districts_2005_def)
  from areal_weights_dist_num [OF this] obtain r
    where r: "r \<in> set (overlay ov tracts (remove_31ST ds))" "w_dist_num w = ov_dist_num r"
    by blast
  from overlay_dist_num [OF r(1)] obtain d
    where "d \<in> set (remove_31ST ds)" "ov_dist_num r = dist_num d"
    by blast
  with r(2) show ?thesis by (auto simp: remove_31ST_def)
qed

lemma acs_2010_2020_dist_num:
  assumes "p \<in> set (acs_2010_2020 ov tracts ds api)"
  shows "\<exists>w \<in> set (tracts_to_districts_2010 ov tracts ds). dy_dist_num p = w_dist_num w"
proof -
  let ?mapped = "acs_mapped_post_2009 (acs_data_post_2009 api) (tracts_to_districts_2010 ov tracts ds)"
  from assms obtain d y where "(d, y) \<in> set (group_keys (\<lambda>r. (m_dist_num r, m_year r)) ?mapped)"
    and "dy_dist_num p = d"
    by (auto simp: acs_2010_2020_def district_aggregated_post_2009_def)
  then obtain m where m: "m \<in> set ?mapped" "dy_dist_num p = m_dist_num m"
    by (auto simp: set_group_keys)
  from m(1) obtain a w where
    "(a, w) \<in> set (merge_inner (\<lambda>a w. GEOID a = w_tract w) (acs_data_post_2009 api)
                      (tracts_to_districts_2010 ov tracts ds))"
    and "m_dist_num m = w_dist_num w"
    by (auto simp: acs_mapped_post_2009_def)
  with m(2) merge_inner_set show ?thesis by fastforce
qed

lemma acs_2005_2009_dist_num:
  assumes "p \<in> set (acs_2005_2009 ov tracts ds nhgis)"
  shows "\<exists>w \<in> set (tracts_to_districts_2005 ov tracts ds). d_dist_num p = w_dist_num w"
proof -
  let ?rows = "filtered_df (tracts_to_districts_2005 ov tracts ds) (acs2005_2009_chicago nhgis)"
  from assms have "d_dist_num p \<in> set (group_keys fd_dist_num ?rows)"
    by (auto simp: acs_2005_2009_def district_aggregated2005_def Let_def)
  then obtain m where m: "m \<in> set ?rows" "d_dist_num p = fd_dist_num m"
    by (auto simp: set_group_keys)
  from m(1) obtain w a where
    "(w, a) \<in> set (merge_inner (\<lambda>w a. w_tract w = census_tract_id a)
                      (tracts_to_districts_2005 ov tracts ds) (acs2005_2009_chicago nhgis))"
    and "fd_dist_num m = w_dist_num w"
    by (auto simp: filtered_df_def)
  with m(2) merge_inner_set show ?thesis by fastforce
qed

lemma fillna0_not_NaN: "fillna0 x \<noteq> NaN" "NaN \<noteq> fillna0 x"
  by (cases x; simp add: fillna0_def)+

lemma sum_skipna_no_NaN:
  assumes "NaN \<notin> set xs"
  shows "sum_skipna xs = fsum xs"
proof -
  from assms have "filter (\<lambda>x. x \<noteq> NaN) xs = xs"
    by (induction xs) auto
  then show ?thesis by (simp add: sum_skipna_def)
qed

lemma acs_column_listed: "v \<in> set acs_columns_post_2009"
  by (cases v) (simp_all add: acs_columns_post_2009_def)

lemma district_aggregated_post_2009_weighted:
  assumes "p \<in> set (acs_2010_2020 ov tracts ds api)"
  shows "dy_sum p v =
           fsum (map (\<lambda>(a, w). fillna0 (fmul (acs_value a v) (proportion w)))
             (filter (\<lambda>(a, w). w_dist_num w = dy_dist_num p \<and> acs_year a = dy_year p)
                (merge_inner (\<lambda>a w. GEOID a = w_tract w) (acs_data_post_2009 api)
                   (tracts_to_districts_2010 ov tracts ds))))"
proof -
  let ?merged = "merge_inner (\<lambda>a w. GEOID a = w_tract w) (acs_data_post_2009 api)
                   (tracts_to_districts_2010 ov tracts ds)"
  let ?mapped = "acs_mapped_post_2009 (acs_data_post_2009 api)
                   (tracts_to_districts_2010 ov tracts ds)"
  let ?cells = "map (\<lambda>(a, w). fillna0 (fmul (acs_value a v) (proportion w)))
             (filter (\<lambda>(a, w). w_dist_num w = dy_dist_num p \<and> acs_year a = dy_year p) ?merged)"
  from assms obtain d y where p: "p = \<lparr>dy_dist_num = d, dy_year = y,
      dy_sum = (\<lambda>v. sum_skipna (map (\<lambda>r. m_value r v)
                  (filter (\<lambda>r. m_dist_num r = d \<and> m_year r = y) ?mapped)))\<rparr>"
    by (auto simp: acs_2010_2020_def district_aggregated_post_2009_def)
  have "map (\<lambda>r. m_value r v) (filter (\<lambda>r. m_dist_num r = d \<and> m_year r = y) ?mapped) = ?cells"
    unfolding acs_mapped_post_2009_def p
    by (simp add: filter_map o_def acs_column_listed case_prod_unfold)
  then have "dy_sum p v = sum_skipna ?cells"
    unfolding p by simp
  moreover have "NaN \<notin> set ?cells"
    by (auto simp: fillna0_not_NaN)
  ultimately show ?thesis by (simp add: sum_skipna_no_NaN)
qed

lemma district_aggregated2005_unweighted_sum:
  assumes "p \<in> set (acs_2005_2009 ov tracts ds nhgis)"
  shows "d_Total_Population p =
           fsum (map (\<lambda>(w, a). fillna0 (chicago_value a RK9E001))
             (filter (\<lambda>(w, a). w_dist_num w = d_dist_num p)
                (merge_inner (\<lambda>w a. w_tract w = census_tract_id a)
                   (tracts_to_districts_2005 ov tracts ds) (acs2005_2009_chicago nhgis))))"
proof -
  let ?merged = "merge_inner (\<lambda>w a. w_tract w = census_tract_id a)
                   (tracts_to_districts_2005 ov tracts ds) (acs2005_2009_chicago nhgis)"
  let ?rows = "filtered_df (tracts_to_districts_2005 ov tracts ds) (acs2005_2009_chicago nhgis)"
  let ?cells = "map (\<lambda>(w, a). fillna0 (chicago_value a RK9E001))
             (filter (\<lambda>(w, a). w_dist_num w = d_dist_num p) ?merged)"
  from assms obtain d where d: "d_dist_num p = d"
    and pop: "d_Total_Population p =
      sum_skipna (map fd_Total_Population (filter (\<lambda>r. fd_dist_num r = d) ?rows))"
    by (auto simp: acs_2005_2009_def district_aggregated2005_def Let_def)
  have "map fd_Total_Population (filter (\<lambda>r. fd_dist_num r = d) ?rows) = ?cells"
    unfolding filtered_df_def d
    by (simp add: filter_map o_def case_prod_unfold)
  with pop have "d_Total_Population p = sum_skipna ?cells"
    by simp
  moreover have "NaN \<notin> set ?cells"
    by (auto simp: fillna0_not_NaN)
  ultimately show ?thesis by (simp add: sum_skipna_no_NaN)
qed

lemma sprintf_column_error:
  "sprintf_column xs = Inl e \<Longrightarrow> e = FormatError"
  by (induction xs) (auto simp: sprintf_03d_def split: sum.splits option.splits if_splits)

lemma crime_rates_error:
  "crime_rates columns merged = Inl e \<Longrightarrow> \<exists>c. e = KeyError c"
  by (auto simp: crime_rates_def split: list.splits)

lemma fdiv_fl_exact: "fdiv_fl Fin x y = fdiv x y"
  by (simp add: fdiv_fl_def split: fnum.splits)

lemma areal_weights_fl_exact: "areal_weights_fl Fin sum_list rows = areal_weights rows"
  by (simp add: areal_weights_fl_def areal_weights_def fdiv_fl_exact
        total_tract_area_fl_def total_tract_area_def)

lemma tracts_to_districts_fl_exact:
  "tracts_to_districts_2010_fl Fin sum_list ov tracts ds = tracts_to_districts_2010 ov tracts ds"
  "tracts_to_districts_2005_fl Fin sum_list ov tracts ds = tracts_to_districts_2005 ov tracts ds"
  by (simp_all add: tracts_to_districts_2010_fl_def tracts_to_districts_2010_def
        tracts_to_districts_2005_fl_def tracts_to_districts_2005_def areal_weights_fl_exact)









lemma merge_left_keeps:
  assumes "l \<in> set left"
  shows "\<exists>m. (l, m) \<in> set (merge_left on left right)"
proof (cases "filter (on l) right")
  case Nil
  with assms have "(l, None) \<in> set (merge_left on left right)"
    by (force simp: merge_left_def)
  then show ?thesis by blast
next
  case (Cons a as)
  with assms have "(l, Some a) \<in> set (merge_left on left right)"
    by (force simp: merge_left_def)
  then show ?thesis by blast
qed

lemma crime_counts_has_row:
  assumes "crime_counts rows = (columns, aggregated)" and "c \<in> set rows"
  shows "\<exists>l \<in> set aggregated. cnt_District l = cd_District c \<and> cnt_year l = cd_year c
           \<and> cnt_month l = cd_month c"
proof -
  have agg: "aggregated =
      map (\<lambda>(d, y, m).
          \<lparr>cnt_District = d, cnt_year = y, cnt_month = m,
           cnt_counts = map (\<lambda>c. (c, length (filter (\<lambda>r. cd_District r = d \<and> cd_year r = y
                               \<and> cd_month r = m \<and> cd_Crime_Category r = c) rows)))
                          (group_keys cd_Crime_Category rows)\<rparr>)
         (group_keys (\<lambda>r. (cd_District r, cd_year r, cd_month r)) rows)"
    using assms(1) by (auto simp: crime_counts_def Let_def)
  from assms(2) have "(cd_District c, cd_year c, cd_month c)
      \<in> set (group_keys (\<lambda>r. (cd_District r, cd_year r, cd_month r)) rows)"
    by (simp add: set_group_keys)
  then show ?thesis unfolding agg by force
qed

lemma crime_filtered_has:
  assumes "(Some t, u) \<in> set rows" and "lo \<le> ts_year t" and "ts_year t \<le> hi"
  shows "\<lparr>cd_District = District u, cd_year = ts_year t, cd_month = ts_month t,
          cd_Crime_Category = Crime_Category u\<rparr> \<in> set (crime_filtered lo hi rows)"
  using assms by (force simp: crime_filtered_def)

lemma zip_dates:
  assumes "u \<in> set units"
  shows "(mdy_hms (Date u), u) \<in> set (zip (map mdy_hms (map Date units)) units)"
proof -
  have "zip (map mdy_hms (map Date units)) units = map (\<lambda>u. (mdy_hms (Date u), u)) units"
    by (induction units) simp_all
  with assms show ?thesis by simp
qed

lemma crime_rates_keeps:
  assumes "crime_rates columns merged = Inr table" and "(l, pop) \<in> set merged"
  shows "with_rates l pop \<in> set table"
  using crime_rates_Inr [OF assms(1)] assms(2) by force

lemma crime_aggregated_2010_2020_keeps:
  assumes "crime_aggregated_2010_2020 units acs = Inr table"
    and "u \<in> set units" and "Date u = WellFormed t"
    and "2010 \<le> ts_year t" and "ts_year t \<le> 2020"
  shows "\<exists>r \<in> set table. agg_District r = lstrip0 (District u) \<and> agg_year r = ts_year t
           \<and> agg_month r = ts_month t"
proof -
  let ?filtered = "crime_filtered 2010 2020 (zip (map mdy_hms (map Date units)) units)"
  obtain columns aggregated where cc: "crime_counts ?filtered = (columns, aggregated)"
    by (cases "crime_counts ?filtered")
  let ?on = "\<lambda>l p. cnt_District l = dy_dist_num p \<and> cnt_year l = dy_year p"
  let ?left = "map (\<lambda>r. r\<lparr>cnt_District := lstrip0 (cnt_District r)\<rparr>) aggregated"
  let ?pop = "\<lambda>m. case m of None \<Rightarrow> NaN | Some p \<Rightarrow> Total_Population_post_2009 p"
  have rates: "crime_rates columns (map (\<lambda>(l, m). (l, ?pop m)) (merge_left ?on ?left acs)) = Inr table"
    using assms(1) cc by (simp add: crime_aggregated_2010_2020_def to_datetime_coerce)
  have "(Some t, u) \<in> set (zip (map mdy_hms (map Date units)) units)"
    using zip_dates [OF assms(2)] assms(3) by (simp add: mdy_hms_def)
  from crime_filtered_has [OF this assms(4,5)] crime_counts_has_row [OF cc]
  obtain l0 where l0: "l0 \<in> set aggregated" "cnt_District l0 = District u"
    "cnt_year l0 = ts_year t" "cnt_month l0 = ts_month t"
    by fastforce
  let ?l = "l0\<lparr>cnt_District := lstrip0 (cnt_District l0)\<rparr>"
  from l0(1) have "?l \<in> set ?left" by simp
  from merge_left_keeps [OF this] obtain m where "(?l, m) \<in> set (merge_left ?on ?left acs)"
    by blast
  then have "(?l, ?pop m) \<in> set (map (\<lambda>(l, m). (l, ?pop m)) (merge_left ?on ?left acs))"
    by force
  from crime_rates_keeps [OF rates this] have "with_rates ?l (?pop m) \<in> set table" .
  moreover have "agg_District (with_rates ?l (?pop m)) = lstrip0 (District u)"
    "agg_year (with_rates ?l (?pop m)) = ts_year t"
    "agg_month (with_rates ?l (?pop m)) = ts_month t"
    using l0 by (simp_all add: with_rates_simps)
  ultimately show ?thesis by blast
qed

lemma crime_aggregated_monthly2005_keeps:
  assumes "crime_aggregated_monthly2005 units acs = Inr table"
    and "u \<in> set units" and "Date u = WellFormed t"
    and "2005 \<le> ts_year t" and "ts_year t \<le> 2009"
  shows "\<exists>r \<in> set table. agg_District r = lstrip0 (District u) \<and> agg_year r = ts_year t
           \<and> agg_month r = ts_month t"
proof -
  let ?filtered = "map (\<lambda>r. r\<lparr>cd_District := lstrip0 (cd_District r)\<rparr>)
                     (crime_filtered 2005 2009 (zip (map mdy_hms (map Date units)) units))"
  obtain columns aggregated where cc: "crime_counts ?filtered = (columns, aggregated)"
    by (cases "crime_counts ?filtered")
  let ?on = "\<lambda>l p. cnt_District l = d_dist_num p"
  let ?pop = "\<lambda>m. case m of None \<Rightarrow> NaN | Some p \<Rightarrow> d_Total_Population p"
  have rates: "crime_rates columns (map (\<lambda>(l, m). (l, ?pop m)) (merge_left ?on aggregated acs)) = Inr table"
    using assms(1) cc by (simp add: crime_aggregated_monthly2005_def to_datetime_coerce)
  have "(Some t, u) \<in> set (zip (map mdy_hms (map Date units)) units)"
    using zip_dates [OF assms(2)] assms(3) by (simp add: mdy_hms_def)
  from crime_filtered_has [OF this assms(4,5)]
  have "\<lparr>cd_District = lstrip0 (District u), cd_year = ts_year t, cd_month = ts_month t,
          cd_Crime_Category = Crime_Category u\<rparr> \<in> set ?filtered"
    by force
  from crime_counts_has_row [OF cc this]
  obtain l where l: "l \<in> set aggregated" "cnt_District l = lstrip0 (District u)"
    "cnt_year l = ts_year t" "cnt_month l = ts_month t"
    by fastforce
  from merge_left_keeps [OF l(1)] obtain m where "(l, m) \<in> set (merge_left ?on aggregated acs)"
    by blast
  then have "(l, ?pop m) \<in> set (map (\<lambda>(l, m). (l, ?pop m)) (merge_left ?on aggregated acs))"
    by force
  from crime_rates_keeps [OF rates this] have "with_rates l (?pop m) \<in> set table" .
  moreover have "agg_District (with_rates l (?pop m)) = lstrip0 (District u)"
    "agg_year (with_rates l (?pop m)) = ts_year t"
    "agg_month (with_rates l (?pop m)) = ts_month t"
    using l by (simp_all add: with_rates_simps)
  ultimately show ?thesis by blast
qed

lemma missing_population_2010_2020:
  assumes "pipeline_2010_2020 ov tracts ds api csv = Inr table" and "r \<in> set table"
    and "agg_District r \<notin> dy_dist_num ` set (acs_2010_2020 ov tracts ds api)"
  shows "Total_Population r = NaN"
proof -
  have "dy_dist_num p \<noteq> agg_District r" if "p \<in> set (acs_2010_2020 ov tracts ds api)" for p
  proof -
    from that have "dy_dist_num p \<in> dy_dist_num ` set (acs_2010_2020 ov tracts ds api)"
      by (rule imageI)
    with assms(3) show ?thesis by auto
  qed
  then have "find (\<lambda>p. dy_dist_num p = agg_District r \<and> dy_year p = agg_year r)
               (acs_2010_2020 ov tracts ds api) = None"
    by (auto simp: find_None_iff)
  with population_2010_2020 [OF assms(1,2)] show ?thesis by simp
qed

lemma missing_population_2005_2009:
  assumes "pipeline_2005_2009 ov tracts ds nhgis csv = Inr table" and "r \<in> set table"
    and "agg_District r \<notin> d_dist_num ` set (acs_2005_2009 ov tracts ds nhgis)"
  shows "Total_Population r = NaN"
proof -
  have "d_dist_num p \<noteq> agg_District r" if "p \<in> set (acs_2005_2009 ov tracts ds nhgis)" for p
  proof -
    from that have "d_dist_num p \<in> d_dist_num ` set (acs_2005_2009 ov tracts ds nhgis)"
      by (rule imageI)
    with assms(3) show ?thesis by auto
  qed
  then have "find (\<lambda>p. d_dist_num p = agg_District r) (acs_2005_2009 ov tracts ds nhgis) = None"
    by (auto simp: find_None_iff)
  with population_2005_2009 [OF assms(1,2)] show ?thesis by simp
qed

lemma kept_2010_2020:
  assumes "pipeline_2010_2020 ov tracts ds api csv = Inr table"
    and "crime_units csv = Inr units" and "u \<in> set units" and "Date u = WellFormed t"
    and "2010 \<le> ts_year t" and "ts_year t \<le> 2020"
  shows "\<exists>r \<in> set table. agg_District r = lstrip0 (District u) \<and> agg_year r = ts_year t
           \<and> agg_month r = ts_month t
           \<and> (lstrip0 (District u) \<notin> dy_dist_num ` set (acs_2010_2020 ov tracts ds api)
                \<longrightarrow> Total_Population r = NaN)"
proof -
  from assms(1,2) have "crime_aggregated_2010_2020 units (acs_2010_2020 ov tracts ds api) = Inr table"
    by (simp add: pipeline_2010_2020_def)
  from crime_aggregated_2010_2020_keeps [OF this assms(3-6)] obtain r
    where r: "r \<in> set table" "agg_District r = lstrip0 (District u)"
      "agg_year r = ts_year t" "agg_month r = ts_month t"
    by blast
  have "lstrip0 (District u) \<notin> dy_dist_num ` set (acs_2010_2020 ov tracts ds api)
          \<longrightarrow> Total_Population r = NaN"
    using missing_population_2010_2020 [OF assms(1) r(1)] r(2) by simp
  with r show ?thesis by blast
qed

lemma kept_2005_2009:
  assumes "pipeline_2005_2009 ov tracts ds nhgis csv = Inr table"
    and "crime_units csv = Inr units" and "u \<in> set units" and "Date u = WellFormed t"
    and "2005 \<le> ts_year t" and "ts_year t \<le> 2009"
  shows "\<exists>r \<in> set table. agg_District r = lstrip0 (District u) \<and> agg_year r = ts_year t
           \<and> agg_month r = ts_month t
           \<and> (lstrip0 (District u) \<notin> d_dist_num ` set (acs_2005_2009 ov tracts ds nhgis)
                \<longrightarrow> Total_Population r = NaN)"
proof -
  from assms(1,2) have "crime_aggregated_monthly2005 units (acs_2005_2009 ov tracts ds nhgis) = Inr table"
    by (simp add: pipeline_2005_2009_def)
  from crime_aggregated_monthly2005_keeps [OF this assms(3-6)] obtain r
    where r: "r \<in> set table" "agg_District r = lstrip0 (District u)"
      "agg_year r = ts_year t" "agg_month r = ts_month t"
    by blast
  have "lstrip0 (District u) \<notin> d_dist_num ` set (acs_2005_2009 ov tracts ds nhgis)
          \<longrightarrow> Total_Population r = NaN"
    using missing_population_2005_2009 [OF assms(1) r(1)] r(2) by simp
  with r show ?thesis by blast
qed

lemma weights_from_kept_districts:
  assumes "w \<in> set (tracts_to_districts_2010 ov tracts ds)
           \<or> w \<in> set (tracts_to_districts_2005 ov tracts ds)"
  shows "w_dist_num w \<in> dist_num ` set (remove_31ST ds)"
proof -
  from tracts_to_districts_dist_num [OF assms] obtain d
    where d: "d \<in> set ds" "dist_label d \<noteq> ''31ST''" "w_dist_num w = dist_num d"
    by blast
  from d(1,2) have "d \<in> set (remove_31ST ds)" by (simp add: remove_31ST_def)
  then have "dist_num d \<in> dist_num ` set (remove_31ST ds)" by (rule imageI)
  with d(3) show ?thesis by simp
qed

lemma survey_2010_from_kept_districts:
  assumes "p \<in> set (acs_2010_2020 ov tracts ds api)"
  shows "dy_dist_num p \<in> dist_num ` set (remove_31ST ds)"
proof -
  from acs_2010_2020_dist_num [OF assms] obtain w
    where w: "w \<in> set (tracts_to_districts_2010 ov tracts ds)" "dy_dist_num p = w_dist_num w"
    by blast
  from w(1) have "w \<in> set (tracts_to_districts_2010 ov tracts ds)
           \<or> w \<in> set (tracts_to_districts_2005 ov tracts ds)" by (rule disjI1)
  from weights_from_kept_districts [OF this] w(2) show ?thesis by simp
qed

lemma survey_2005_from_kept_districts:
  assumes "p \<in> set (acs_2005_2009 ov tracts ds nhgis)"
  shows "d_dist_num p \<in> dist_num ` set (remove_31ST ds)"
proof -
  from acs_2005_2009_dist_num [OF assms] obtain w
    where w: "w \<in> set (tracts_to_districts_2005 ov tracts ds)" "d_dist_num p = w_dist_num w"
    by blast
  from w(1) have "w \<in> set (tracts_to_districts_2010 ov tracts ds)
           \<or> w \<in> set (tracts_to_districts_2005 ov tracts ds)" by (rule disjI2)
  from weights_from_kept_districts [OF this] w(2) show ?thesis by simp
qed

lemma kept_districts_not_31:
  assumes "\<forall>d \<in> set ds. dist_num d = ''31'' \<longrightarrow> dist_label d = ''31ST''"
  shows "''31'' \<notin> dist_num ` set (remove_31ST ds)"
proof
  assume "''31'' \<in> dist_num ` set (remove_31ST ds)"
  then obtain d where "d \<in> set ds" "dist_label d \<noteq> ''31ST''" "dist_num d = ''31''"
    by (auto simp: remove_31ST_def)
  with assms show False by blast
qed

lemma crime_table_not_31:
  assumes "pipeline_2010_2020 ov tracts ds api csv = Inr table
           \<or> pipeline_2005_2009 ov' tracts' ds' nhgis csv' = Inr table"
  shows "''31'' \<notin> agg_District ` set table"
proof
  assume "''31'' \<in> agg_District ` set table"
  then obtain r where r: "r \<in> set table" "agg_District r = ''31''"
    by auto
  from pipeline_row_district [OF assms r(1)] obtain d
    where "d \<in> set districts" "agg_District r = lstrip0 (recode d)"
    by blast
  with normalised_districts [of d] r(2) not_district_31 show False by simp
qed

lemma example_unit_2010:
  "case crime_units (example_crime 2010) of
     Inl e \<Rightarrow> False
   | Inr units \<Rightarrow>
       \<lparr>Date = WellFormed \<lparr>ts_year = 2010, ts_month = 3, ts_day = 11, ts_second = 0\<rparr>, ID = 8,
        District = ''012'', Primary_Type = ''THEFT'', Crime_Category = ''Property Crime''\<rparr>
         \<in> set units"
  by code_simp

lemma example_run_2010:
  "pipeline_2010_2020 example_ov example_tracts example_districts example_api (example_crime 2010)
     = Inr example_table_2010"
  unfolding example_table_2010_def by code_simp

lemma example_run_2005:
  "pipeline_2005_2009 example_ov example_tracts example_districts example_nhgis (example_crime 2005)
     = Inr example_table_2005"
  unfolding example_table_2005_def by code_simp

section \<open>The claims\<close>

text \<open>
  C3, as amended. In the table of either notebook, a row whose \<open>Total_Population\<close> is
  a positive number has six non-negative rates and a non-negative total rate. (A row
  whose district has no row in the survey table has a missing population, and its six
  rates are NaN, of which \<open>x >= 0\<close> is false.)
\<close>

theorem rates_nonneg_where_population_positive:
  assumes "pipeline_2010_2020 ov tracts ds api csv = Inr table
           \<or> pipeline_2005_2009 ov' tracts' ds' nhgis csv' = Inr table"
    and "r \<in> set table"
    and "Total_Population r = Fin p" and "0 < p"
  shows "(\<forall>x \<in> snd ` set (rates r). nonneg x) \<and> nonneg (total_crime_rate r)"
proof -
  from pipeline_row_with_rates [OF assms(1,2)] obtain l
    where "r = with_rates l (Total_Population r)" by blast
  then have "r = with_rates l (Fin p)" using assms(3) by simp
  with with_rates_nonneg [OF assms(4), of l] show ?thesis by simp
qed

theorem rates_nonneg_where_population_positive_witness:
  "pipeline_2010_2020 example_ov example_tracts example_districts example_api (example_crime 2010)
     = Inr example_table_2010
   \<and> hd example_table_2010 \<in> set example_table_2010
   \<and> Total_Population (hd example_table_2010) = Fin 400
   \<and> list_all nonneg (map snd (rates (hd example_table_2010)))
   \<and> nonneg (total_crime_rate (hd example_table_2010))"
proof -
  have mem: "hd example_table_2010 \<in> set example_table_2010"
    by (simp add: example_table_2010_def)
  have pop: "Total_Population (hd example_table_2010) = Fin 400"
    by (simp add: example_table_2010_def)
  from rates_nonneg_where_population_positive
    [OF disjI1 [OF example_run_2010] mem pop]
  show ?thesis using example_run_2010 mem pop by (simp add: list_all_iff)
qed

text \<open>
  C3 as stated fails on the record of district 13, which the R step recodes to 12: the
  example has no polygon of district 12, the left merge leaves the population of the row
  missing, and the rate computed from it is NaN.
\<close>

theorem rates_nonneg_counterexample:
  "pipeline_2010_2020 example_ov example_tracts example_districts example_api (example_crime 2010)
     = Inr example_table_2010
   \<and> example_table_2010 ! 2 \<in> set example_table_2010
   \<and> agg_District (example_table_2010 ! 2) = ''12''
   \<and> count_cell (counts (example_table_2010 ! 2)) ''Property Crime'' = 1
   \<and> Total_Population (example_table_2010 ! 2) = NaN
   \<and> rate_cell (rates (example_table_2010 ! 2)) ''Property Crime_rate'' = NaN
   \<and> \<not> nonneg (rate_cell (rates (example_table_2010 ! 2)) ''Property Crime_rate'')"
  using example_run_2010
  by (simp add: example_table_2010_def count_cell_def rate_cell_def nonneg_def)

text \<open>
  C8, as amended. In every row of the table of either notebook, each of the six rates
  is the count of its category divided by \<open>Total_Population\<close> and multiplied by 1000, in
  the arithmetic of the cells, and the total rate is the sum of the six rates with the
  NaN among them left out. The total is the plain sum of the six rates when
  \<open>Total_Population\<close> is a number other than 0; when \<open>Total_Population\<close> is missing the
  six rates are NaN and the total rate is 0.
\<close>

theorem crime_rate_formula:
  assumes "pipeline_2010_2020 ov tracts ds api csv = Inr table
           \<or> pipeline_2005_2009 ov' tracts' ds' nhgis csv' = Inr table"
    and "r \<in> set table"
  shows "(\<forall>c \<in> set crime_types. \<exists>n. map_of (counts r) c = Some n
            \<and> map_of (rates r) (c @ ''_rate'')
                = Some (fmul (fdiv (Fin (real n)) (Total_Population r)) (Fin 1000)))
       \<and> total_crime_rate r = sum_skipna (map (rate_cell (rates r)) total_rate_columns)
       \<and> (\<forall>p. Total_Population r = Fin p \<and> p \<noteq> 0 \<longrightarrow>
             total_crime_rate r = fsum (map (rate_cell (rates r)) total_rate_columns))
       \<and> (Total_Population r = NaN \<longrightarrow>
             list_all (\<lambda>c. rate_cell (rates r) c = NaN) total_rate_columns
             \<and> total_crime_rate r = Fin 0)"
proof -
  from pipeline_row_with_rates [OF assms] obtain l
    where r: "r = with_rates l (Total_Population r)"
      and cols: "set crime_types \<subseteq> set (map fst (cnt_counts l))"
    by blast
  let ?pop = "Total_Population r"
  have cnt: "counts r = cnt_counts l"
    by (subst r) (simp add: with_rates_simps)
  have one: "\<forall>c \<in> set crime_types. \<exists>n. map_of (counts r) c = Some n
            \<and> map_of (rates r) (c @ ''_rate'')
                = Some (fmul (fdiv (Fin (real n)) ?pop) (Fin 1000))"
  proof
    fix c assume c: "c \<in> set crime_types"
    with cols have "c \<in> set (map fst (cnt_counts l))" by blast
    from count_cell_present [OF this] obtain n
      where n: "map_of (cnt_counts l) c = Some n" "count_cell (cnt_counts l) c = n"
      by blast
    have "map_of (rates (with_rates l ?pop)) (c @ ''_rate'')
            = Some (crime_rate (count_cell (cnt_counts l) c) ?pop)"
      by (rule rate_cell_with_rates [OF c])
    then have "map_of (rates r) (c @ ''_rate'')
            = Some (fmul (fdiv (Fin (real n)) ?pop) (Fin 1000))"
      using r n by (simp add: crime_rate_def)
    with n cnt show "\<exists>n. map_of (counts r) c = Some n
            \<and> map_of (rates r) (c @ ''_rate'')
                = Some (fmul (fdiv (Fin (real n)) ?pop) (Fin 1000))"
      by simp
  qed
  have cells: "map (rate_cell (rates r)) total_rate_columns =
      map (\<lambda>c. crime_rate (count_cell (cnt_counts l) c) ?pop) crime_types"
    using rate_cells_with_rates [of l ?pop] r by simp
  have two: "total_crime_rate r = sum_skipna (map (rate_cell (rates r)) total_rate_columns)"
    using total_is_sum_skipna [of l ?pop] r by simp
  have three: "total_crime_rate r = fsum (map (rate_cell (rates r)) total_rate_columns)"
    if "?pop = Fin p" "p \<noteq> 0" for p
  proof -
    have "map (rate_cell (rates r)) total_rate_columns =
        map (\<lambda>c. Fin (real (count_cell (cnt_counts l) c) / p * 1000)) crime_types"
      using cells that by (simp add: crime_rate_Fin)
    then show ?thesis using two by (simp add: sum_skipna_Fin fsum_Fin)
  qed
  have four: "list_all (\<lambda>c. rate_cell (rates r) c = NaN) total_rate_columns
             \<and> total_crime_rate r = Fin 0" if "?pop = NaN"
  proof -
    have nan: "map (rate_cell (rates r)) total_rate_columns = map (\<lambda>c. NaN) crime_types"
      using cells that by (simp add: crime_rate_NaN)
    then have "total_crime_rate r = Fin 0"
      using two by (simp add: sum_skipna_NaN)
    moreover have "list_all (\<lambda>x. x = NaN) (map (rate_cell (rates r)) total_rate_columns)"
      unfolding nan by (simp add: list_all_iff)
    ultimately show ?thesis by (simp add: list_all_iff)
  qed
  from one two three four show ?thesis by blast
qed

theorem crime_rate_formula_witness:
  "pipeline_2005_2009 example_ov example_tracts example_districts example_nhgis (example_crime 2005)
     = Inr example_table_2005
   \<and> example_table_2005 ! 1 \<in> set example_table_2005
   \<and> Total_Population (example_table_2005 ! 1) = Fin 500
   \<and> map_of (counts (example_table_2005 ! 1)) ''Violent Crime'' = Some 1
   \<and> map_of (rates (example_table_2005 ! 1)) ''Violent Crime_rate''
       = Some (fmul (fdiv (Fin 1) (Fin 500)) (Fin 1000))
   \<and> total_crime_rate (example_table_2005 ! 1)
       = fsum (map (rate_cell (rates (example_table_2005 ! 1))) total_rate_columns)
   \<and> total_crime_rate (example_table_2005 ! 1) = Fin 12"
proof -
  have mem: "example_table_2005 ! 1 \<in> set example_table_2005"
    by (simp add: example_table_2005_def)
  have pop: "Total_Population (example_table_2005 ! 1) = Fin 500"
    by (simp add: example_table_2005_def)
  have vc: "''Violent Crime'' \<in> set crime_types"
    by (simp add: crime_types_def)
  have cnt: "map_of (counts (example_table_2005 ! 1)) ''Violent Crime'' = Some 1"
    by (simp add: example_table_2005_def)
  have tot: "total_crime_rate (example_table_2005 ! 1) = Fin 12"
    by (simp add: example_table_2005_def)
  from crime_rate_formula [OF disjI2 [OF example_run_2005] mem]
  show ?thesis using example_run_2005 mem pop vc cnt tot by auto
qed

text \<open>
  C8 as stated fails on the row of district 12 of the example: its population is
  missing, its six rates are NaN, their sum is NaN, and its total rate is 0.
\<close>

theorem crime_rate_formula_counterexample:
  "pipeline_2005_2009 example_ov example_tracts example_districts example_nhgis (example_crime 2005)
     = Inr example_table_2005
   \<and> hd example_table_2005 \<in> set example_table_2005
   \<and> Total_Population (hd example_table_2005) = NaN
   \<and> map (rate_cell (rates (hd example_table_2005))) total_rate_columns
       = [NaN, NaN, NaN, NaN, NaN, NaN]
   \<and> fsum (map (rate_cell (rates (hd example_table_2005))) total_rate_columns) = NaN
   \<and> total_crime_rate (hd example_table_2005) = Fin 0
   \<and> total_crime_rate (hd example_table_2005)
       \<noteq> fsum (map (rate_cell (rates (hd example_table_2005))) total_rate_columns)"
  using example_run_2005
  by (simp add: example_table_2005_def rate_cell_def total_rate_columns_def fsum_def)

text \<open>
  C4, as amended. Both notebooks compute the six rates on every row of the crime table,
  with no check of the population. The \<open>Total_Population\<close> of a row is the aggregated
  population of the survey row of its district (and of its year, in the 2010-2020
  notebook), and it is missing when the survey table has no such row: it is positive
  exactly when the survey table has a row for the district (and year) whose population is
  positive.
\<close>

theorem rate_computed_whatever_the_population:
  assumes "r \<in> set table"
  shows "(pipeline_2010_2020 ov tracts ds api csv = Inr table \<longrightarrow>
            map fst (rates r) = total_rate_columns
            \<and> Total_Population r =
                (case find (\<lambda>p. dy_dist_num p = agg_District r \<and> dy_year p = agg_year r)
                           (acs_2010_2020 ov tracts ds api) of
                   None \<Rightarrow> NaN
                 | Some p \<Rightarrow> Total_Population_post_2009 p)
            \<and> (positive (Total_Population r) \<longleftrightarrow>
                 (\<exists>p \<in> set (acs_2010_2020 ov tracts ds api).
                    (dy_dist_num p = agg_District r \<and> dy_year p = agg_year r)
                    \<and> positive (Total_Population_post_2009 p))))
       \<and> (pipeline_2005_2009 ov' tracts' ds' nhgis csv' = Inr table \<longrightarrow>
            map fst (rates r) = total_rate_columns
            \<and> Total_Population r =
                (case find (\<lambda>p. d_dist_num p = agg_District r)
                           (acs_2005_2009 ov' tracts' ds' nhgis) of
                   None \<Rightarrow> NaN
                 | Some p \<Rightarrow> d_Total_Population p)
            \<and> (positive (Total_Population r) \<longleftrightarrow>
                 (\<exists>p \<in> set (acs_2005_2009 ov' tracts' ds' nhgis).
                    d_dist_num p = agg_District r \<and> positive (d_Total_Population p))))"
proof -
  have a: "map fst (rates r) = total_rate_columns
      \<and> Total_Population r =
                (case find (\<lambda>p. dy_dist_num p = agg_District r \<and> dy_year p = agg_year r)
                           (acs_2010_2020 ov tracts ds api) of
                   None \<Rightarrow> NaN
                 | Some p \<Rightarrow> Total_Population_post_2009 p)
      \<and> (positive (Total_Population r) \<longleftrightarrow>
                 (\<exists>p \<in> set (acs_2010_2020 ov tracts ds api).
                    (dy_dist_num p = agg_District r \<and> dy_year p = agg_year r)
                    \<and> positive (Total_Population_post_2009 p)))"
    if run: "pipeline_2010_2020 ov tracts ds api csv = Inr table"
  proof -
    have pop: "Total_Population r =
                (case find (\<lambda>p. dy_dist_num p = agg_District r \<and> dy_year p = agg_year r)
                           (acs_2010_2020 ov tracts ds api) of
                   None \<Rightarrow> NaN
                 | Some p \<Rightarrow> Total_Population_post_2009 p)"
      by (rule population_2010_2020 [OF run assms])
    have "positive (case find (\<lambda>p. dy_dist_num p = agg_District r \<and> dy_year p = agg_year r)
                           (acs_2010_2020 ov tracts ds api) of
                   None \<Rightarrow> NaN
                 | Some p \<Rightarrow> Total_Population_post_2009 p) \<longleftrightarrow>
                 (\<exists>p \<in> set (acs_2010_2020 ov tracts ds api).
                    (dy_dist_num p = agg_District r \<and> dy_year p = agg_year r)
                    \<and> positive (Total_Population_post_2009 p))"
    proof (rule positive_find)
      fix p q
      assume "p \<in> set (acs_2010_2020 ov tracts ds api)"
        and "q \<in> set (acs_2010_2020 ov tracts ds api)"
        and "dy_dist_num p = agg_District r \<and> dy_year p = agg_year r"
        and "dy_dist_num q = agg_District r \<and> dy_year q = agg_year r"
      then show "p = q"
        unfolding acs_2010_2020_def by (intro district_aggregated_post_2009_key) simp_all
    qed
    with pop rates_columns [OF disjI1 [OF run] assms] show ?thesis by simp
  qed
  have b: "map fst (rates r) = total_rate_columns
      \<and> Total_Population r =
                (case find (\<lambda>p. d_dist_num p = agg_District r)
                           (acs_2005_2009 ov' tracts' ds' nhgis) of
                   None \<Rightarrow> NaN
                 | Some p \<Rightarrow> d_Total_Population p)
      \<and> (positive (Total_Population r) \<longleftrightarrow>
                 (\<exists>p \<in> set (acs_2005_2009 ov' tracts' ds' nhgis).
                    d_dist_num p = agg_District r \<and> positive (d_Total_Population p)))"
    if run: "pipeline_2005_2009 ov' tracts' ds' nhgis csv' = Inr table"
  proof -
    have pop: "Total_Population r =
                (case find (\<lambda>p. d_dist_num p = agg_District r)
                           (acs_2005_2009 ov' tracts' ds' nhgis) of
                   None \<Rightarrow> NaN
                 | Some p \<Rightarrow> d_Total_Population p)"
      by (rule population_2005_2009 [OF run assms])
    have "positive (case find (\<lambda>p. d_dist_num p = agg_District r)
                           (acs_2005_2009 ov' tracts' ds' nhgis) of
                   None \<Rightarrow> NaN
                 | Some p \<Rightarrow> d_Total_Population p) \<longleftrightarrow>
                 (\<exists>p \<in> set (acs_2005_2009 ov' tracts' ds' nhgis).
                    d_dist_num p = agg_District r \<and> positive (d_Total_Population p))"
    proof (rule positive_find)
      fix p q
      assume "p \<in> set (acs_2005_2009 ov' tracts' ds' nhgis)"
        and "q \<in> set (acs_2005_2009 ov' tracts' ds' nhgis)"
        and "d_dist_num p = agg_District r"
        and "d_dist_num q = agg_District r"
      then show "p = q"
        unfolding acs_2005_2009_def by (intro district_aggregated2005_key) simp_all
    qed
    with pop rates_columns [OF disjI2 [OF run] assms] show ?thesis by simp
  qed
  show ?thesis
  proof (rule conjI)
    show "pipeline_2010_2020 ov tracts ds api csv = Inr table \<longrightarrow>
            map fst (rates r) = total_rate_columns
            \<and> Total_Population r =
                (case find (\<lambda>p. dy_dist_num p = agg_District r \<and> dy_year p = agg_year r)
                           (acs_2010_2020 ov tracts ds api) of
                   None \<Rightarrow> NaN
                 | Some p \<Rightarrow> Total_Population_post_2009 p)
            \<and> (positive (Total_Population r) \<longleftrightarrow>
                 (\<exists>p \<in> set (acs_2010_2020 ov tracts ds api).
                    (dy_dist_num p = agg_District r \<and> dy_year p = agg_year r)
                    \<and> positive (Total_Population_post_2009 p)))"
      by (rule impI) (rule a)
    show "pipeline_2005_2009 ov' tracts' ds' nhgis csv' = Inr table \<longrightarrow>
            map fst (rates r) = total_rate_columns
            \<and> Total_Population r =
                (case find (\<lambda>p. d_dist_num p = agg_District r)
                           (acs_2005_2009 ov' tracts' ds' nhgis) of
                   None \<Rightarrow> NaN
                 | Some p \<Rightarrow> d_Total_Population p)
            \<and> (positive (Total_Population r) \<longleftrightarrow>
                 (\<exists>p \<in> set (acs_2005_2009 ov' tracts' ds' nhgis).
                    d_dist_num p = agg_District r \<and> positive (d_Total_Population p)))"
      by (rule impI) (rule b)
  qed
qed

theorem rate_computed_whatever_the_population_witness:
  "hd example_table_2010 \<in> set example_table_2010
   \<and> pipeline_2010_2020 example_ov example_tracts example_districts example_api (example_crime 2010)
       = Inr example_table_2010
   \<and> map fst (rates (hd example_table_2010)) = total_rate_columns
   \<and> Total_Population (hd example_table_2010) =
       (case find (\<lambda>p. dy_dist_num p = ''6'' \<and> dy_year p = 2010)
                  (acs_2010_2020 example_ov example_tracts example_districts example_api) of
          None \<Rightarrow> NaN
        | Some p \<Rightarrow> Total_Population_post_2009 p)
   \<and> Total_Population (hd example_table_2010) = Fin 400
   \<and> positive (Total_Population (hd example_table_2010))"
proof -
  have mem: "hd example_table_2010 \<in> set example_table_2010"
    by (simp add: example_table_2010_def)
  have key: "agg_District (hd example_table_2010) = ''6''" "agg_year (hd example_table_2010) = 2010"
    by (simp_all add: example_table_2010_def)
  have pop: "Total_Population (hd example_table_2010) = Fin 400"
    by (simp add: example_table_2010_def)
  note t = rate_computed_whatever_the_population
    [OF mem, THEN conjunct1, rule_format, OF example_run_2010]
  from t have cols: "map fst (rates (hd example_table_2010)) = total_rate_columns"
    by (rule conjunct1)
  from t have "Total_Population (hd example_table_2010) =
       (case find (\<lambda>p. dy_dist_num p = agg_District (hd example_table_2010)
                        \<and> dy_year p = agg_year (hd example_table_2010))
                  (acs_2010_2020 example_ov example_tracts example_districts example_api) of
          None \<Rightarrow> NaN
        | Some p \<Rightarrow> Total_Population_post_2009 p)"
    by (rule conjunct2 [THEN conjunct1])
  then have found: "Total_Population (hd example_table_2010) =
       (case find (\<lambda>p. dy_dist_num p = ''6'' \<and> dy_year p = 2010)
                  (acs_2010_2020 example_ov example_tracts example_districts example_api) of
          None \<Rightarrow> NaN
        | Some p \<Rightarrow> Total_Population_post_2009 p)"
    unfolding key .
  have pos: "positive (Total_Population (hd example_table_2010))"
    unfolding pop by (simp add: positive_def)
  show ?thesis
    by (intro conjI) (fact mem example_run_2010 cols found pop pos)+
qed

text \<open>
  C4 as stated fails on the last row of the example, of district 12: the six rate columns
  are computed, and the population that divides the counts is missing.
\<close>

theorem rate_computed_whatever_the_population_counterexample:
  "pipeline_2010_2020 example_ov example_tracts example_districts example_api (example_crime 2010)
     = Inr example_table_2010
   \<and> last example_table_2010 \<in> set example_table_2010
   \<and> map fst (rates (last example_table_2010)) = total_rate_columns
   \<and> Total_Population (last example_table_2010) = NaN
   \<and> \<not> positive (Total_Population (last example_table_2010))"
  using example_run_2010
  by (simp add: example_table_2010_def total_rate_columns_def positive_def)

text \<open>
  C10. In the 2005-2009 table, two rows of the same district carry the same
  \<open>Total_Population\<close>, whatever their years and months: the population of the row of that
  district in the survey table, or a missing value when there is none.
\<close>

theorem population_constant_within_district:
  assumes "pipeline_2005_2009 ov tracts ds nhgis csv = Inr table"
    and "r1 \<in> set table" and "r2 \<in> set table"
    and "agg_District r1 = agg_District r2"
  shows "Total_Population r1 = Total_Population r2
         \<and> Total_Population r1 =
             (case find (\<lambda>p. d_dist_num p = agg_District r1) (acs_2005_2009 ov tracts ds nhgis) of
                None \<Rightarrow> NaN
              | Some p \<Rightarrow> d_Total_Population p)"
  using population_2005_2009 [OF assms(1,2)] population_2005_2009 [OF assms(1,3)] assms(4)
  by simp

theorem population_constant_within_district_witness:
  "pipeline_2005_2009 example_ov example_tracts example_districts example_nhgis (example_crime 2005)
     = Inr example_table_2005
   \<and> example_table_2005 ! 1 \<in> set example_table_2005
   \<and> example_table_2005 ! 2 \<in> set example_table_2005
   \<and> agg_District (example_table_2005 ! 1) = agg_District (example_table_2005 ! 2)
   \<and> agg_year (example_table_2005 ! 1) = 2005 \<and> agg_month (example_table_2005 ! 1) = 3
   \<and> agg_year (example_table_2005 ! 2) = 2006 \<and> agg_month (example_table_2005 ! 2) = 7
   \<and> Total_Population (example_table_2005 ! 1) = Total_Population (example_table_2005 ! 2)"
proof -
  have mem: "example_table_2005 ! 1 \<in> set example_table_2005"
      "example_table_2005 ! 2 \<in> set example_table_2005"
    by (simp_all add: example_table_2005_def)
  have key: "agg_District (example_table_2005 ! 1) = agg_District (example_table_2005 ! 2)"
    by (simp add: example_table_2005_def)
  have ym: "agg_year (example_table_2005 ! 1) = 2005 \<and> agg_month (example_table_2005 ! 1) = 3
     \<and> agg_year (example_table_2005 ! 2) = 2006 \<and> agg_month (example_table_2005 ! 2) = 7"
    by (simp add: example_table_2005_def)
  from population_constant_within_district [OF example_run_2005 mem key]
  have same: "Total_Population (example_table_2005 ! 1) = Total_Population (example_table_2005 ! 2)"
    by (rule conjunct1)
  from ym have ym1: "agg_year (example_table_2005 ! 1) = 2005"
    and ym2: "agg_month (example_table_2005 ! 1) = 3"
    and ym3: "agg_year (example_table_2005 ! 2) = 2006"
    and ym4: "agg_month (example_table_2005 ! 2) = 7"
    by blast+
  show ?thesis
    by (intro conjI) (fact example_run_2005 mem key ym1 ym2 ym3 ym4 same)+
qed

text \<open>
  C5, as amended. After the R step (three digits, the listed districts, the recoding of
  013, 021 and 023) and the stripping of the leading zeros, every district of the
  aggregated crime table of either notebook is one of the 22 identifiers 1 to 12, 14 to
  20, 22, 24 and 25. The code does not require such a district to be a \<open>dist_num\<close> of the
  survey table: the merge is a left join, and a row of a district that the survey table
  does not have has a missing population. Nothing is dropped by the merge: every record
  of the R step's output whose year is in the range of the notebook has its district,
  year and month on a row of the table, and that row has a missing population where the
  survey table does not have the district.
\<close>

theorem crime_districts_normalised:
  shows "(pipeline_2010_2020 ov tracts ds api csv = Inr table
            \<or> pipeline_2005_2009 ov' tracts' ds' nhgis csv' = Inr table
          \<longrightarrow> (\<forall>r \<in> set table.
                 agg_District r \<in> set (map str_nat ([1..<13] @ [14..<21] @ [22, 24, 25]))
               \<and> (pipeline_2010_2020 ov tracts ds api csv = Inr table
                    \<and> agg_District r \<notin> dy_dist_num ` set (acs_2010_2020 ov tracts ds api)
                    \<longrightarrow> Total_Population r = NaN)
               \<and> (pipeline_2005_2009 ov' tracts' ds' nhgis csv' = Inr table
                    \<and> agg_District r \<notin> d_dist_num ` set (acs_2005_2009 ov' tracts' ds' nhgis)
                    \<longrightarrow> Total_Population r = NaN)))
       \<and> (pipeline_2010_2020 ov tracts ds api csv = Inr table
            \<and> crime_units csv = Inr units \<and> u \<in> set units \<and> Date u = WellFormed t
            \<and> 2010 \<le> ts_year t \<and> ts_year t \<le> 2020
          \<longrightarrow> (\<exists>r \<in> set table.
                 agg_District r = lstrip0 (District u) \<and> agg_year r = ts_year t
               \<and> agg_month r = ts_month t
               \<and> (lstrip0 (District u) \<notin> dy_dist_num ` set (acs_2010_2020 ov tracts ds api)
                    \<longrightarrow> Total_Population r = NaN)))
       \<and> (pipeline_2005_2009 ov' tracts' ds' nhgis csv' = Inr table
            \<and> crime_units csv' = Inr units' \<and> u' \<in> set units' \<and> Date u' = WellFormed t'
            \<and> 2005 \<le> ts_year t' \<and> ts_year t' \<le> 2009
          \<longrightarrow> (\<exists>r \<in> set table.
                 agg_District r = lstrip0 (District u') \<and> agg_year r = ts_year t'
               \<and> agg_month r = ts_month t'
               \<and> (lstrip0 (District u') \<notin> d_dist_num ` set (acs_2005_2009 ov' tracts' ds' nhgis)
                    \<longrightarrow> Total_Population r = NaN)))"
proof (rule conjI [OF _ conjI])
  show "pipeline_2010_2020 ov tracts ds api csv = Inr table
            \<or> pipeline_2005_2009 ov' tracts' ds' nhgis csv' = Inr table
          \<longrightarrow> (\<forall>r \<in> set table.
                 agg_District r \<in> set (map str_nat ([1..<13] @ [14..<21] @ [22, 24, 25]))
               \<and> (pipeline_2010_2020 ov tracts ds api csv = Inr table
                    \<and> agg_District r \<notin> dy_dist_num ` set (acs_2010_2020 ov tracts ds api)
                    \<longrightarrow> Total_Population r = NaN)
               \<and> (pipeline_2005_2009 ov' tracts' ds' nhgis csv' = Inr table
                    \<and> agg_District r \<notin> d_dist_num ` set (acs_2005_2009 ov' tracts' ds' nhgis)
                    \<longrightarrow> Total_Population r = NaN))"
  proof (intro impI ballI conjI)
    fix r
    assume run: "pipeline_2010_2020 ov tracts ds api csv = Inr table
            \<or> pipeline_2005_2009 ov' tracts' ds' nhgis csv' = Inr table"
      and r: "r \<in> set table"
    from pipeline_row_district [OF run r] obtain d
      where "d \<in> set districts" "agg_District r = lstrip0 (recode d)"
      by blast
    with normalised_districts [of d]
    show "agg_District r \<in> set (map str_nat ([1..<13] @ [14..<21] @ [22, 24, 25]))"
      by simp
  next
    fix r
    assume r: "r \<in> set table"
      and a: "pipeline_2010_2020 ov tracts ds api csv = Inr table
            \<and> agg_District r \<notin> dy_dist_num ` set (acs_2010_2020 ov tracts ds api)"
    from missing_population_2010_2020 [OF conjunct1 [OF a] r conjunct2 [OF a]]
    show "Total_Population r = NaN" .
  next
    fix r
    assume r: "r \<in> set table"
      and a: "pipeline_2005_2009 ov' tracts' ds' nhgis csv' = Inr table
            \<and> agg_District r \<notin> d_dist_num ` set (acs_2005_2009 ov' tracts' ds' nhgis)"
    from missing_population_2005_2009 [OF conjunct1 [OF a] r conjunct2 [OF a]]
    show "Total_Population r = NaN" .
  qed
next
  show "pipeline_2010_2020 ov tracts ds api csv = Inr table
            \<and> crime_units csv = Inr units \<and> u \<in> set units \<and> Date u = WellFormed t
            \<and> 2010 \<le> ts_year t \<and> ts_year t \<le> 2020
          \<longrightarrow> (\<exists>r \<in> set table.
                 agg_District r = lstrip0 (District u) \<and> agg_year r = ts_year t
               \<and> agg_month r = ts_month t
               \<and> (lstrip0 (District u) \<notin> dy_dist_num ` set (acs_2010_2020 ov tracts ds api)
                    \<longrightarrow> Total_Population r = NaN))"
  proof
    assume a: "pipeline_2010_2020 ov tracts ds api csv = Inr table
            \<and> crime_units csv = Inr units \<and> u \<in> set units \<and> Date u = WellFormed t
            \<and> 2010 \<le> ts_year t \<and> ts_year t \<le> 2020"
    then have "pipeline_2010_2020 ov tracts ds api csv = Inr table"
      "crime_units csv = Inr units" "u \<in> set units" "Date u = WellFormed t"
      "2010 \<le> ts_year t" "ts_year t \<le> 2020"
      by simp_all
    then show "\<exists>r \<in> set table.
                 agg_District r = lstrip0 (District u) \<and> agg_year r = ts_year t
               \<and> agg_month r = ts_month t
               \<and> (lstrip0 (District u) \<notin> dy_dist_num ` set (acs_2010_2020 ov tracts ds api)
                    \<longrightarrow> Total_Population r = NaN)"
      by (rule kept_2010_2020)
  qed
next
  show "pipeline_2005_2009 ov' tracts' ds' nhgis csv' = Inr table
            \<and> crime_units csv' = Inr units' \<and> u' \<in> set units' \<and> Date u' = WellFormed t'
            \<and> 2005 \<le> ts_year t' \<and> ts_year t' \<le> 2009
          \<longrightarrow> (\<exists>r \<in> set table.
                 agg_District r = lstrip0 (District u') \<and> agg_year r = ts_year t'
               \<and> agg_month r = ts_month t'
               \<and> (lstrip0 (District u') \<notin> d_dist_num ` set (acs_2005_2009 ov' tracts' ds' nhgis)
                    \<longrightarrow> Total_Population r = NaN))"
  proof
    assume a: "pipeline_2005_2009 ov' tracts' ds' nhgis csv' = Inr table
            \<and> crime_units csv' = Inr units' \<and> u' \<in> set units' \<and> Date u' = WellFormed t'
            \<and> 2005 \<le> ts_year t' \<and> ts_year t' \<le> 2009"
    then have "pipeline_2005_2009 ov' tracts' ds' nhgis csv' = Inr table"
      "crime_units csv' = Inr units'" "u' \<in> set units'" "Date u' = WellFormed t'"
      "2005 \<le> ts_year t'" "ts_year t' \<le> 2009"
      by simp_all
    then show "\<exists>r \<in> set table.
                 agg_District r = lstrip0 (District u') \<and> agg_year r = ts_year t'
               \<and> agg_month r = ts_month t'
               \<and> (lstrip0 (District u') \<notin> d_dist_num ` set (acs_2005_2009 ov' tracts' ds' nhgis)
                    \<longrightarrow> Total_Population r = NaN)"
      by (rule kept_2005_2009)
  qed
qed

theorem crime_districts_normalised_witness:
  "pipeline_2010_2020 example_ov example_tracts example_districts example_api (example_crime 2010)
     = Inr example_table_2010
   \<and> last example_table_2010 \<in> set example_table_2010
   \<and> agg_District (last example_table_2010) = ''12''
   \<and> agg_District (last example_table_2010)
        \<notin> dy_dist_num ` set (acs_2010_2020 example_ov example_tracts example_districts example_api)
   \<and> agg_District (last example_table_2010) \<in> set (map str_nat ([1..<13] @ [14..<21] @ [22, 24, 25]))
   \<and> Total_Population (last example_table_2010) = NaN
   \<and> (\<exists>units.
        crime_units (example_crime 2010) = Inr units
      \<and> \<lparr>Date = WellFormed \<lparr>ts_year = 2010, ts_month = 3, ts_day = 11, ts_second = 0\<rparr>, ID = 8,
         District = ''012'', Primary_Type = ''THEFT'', Crime_Category = ''Property Crime''\<rparr>
          \<in> set units)
   \<and> lstrip0 ''012'' = ''12''
   \<and> (\<exists>r \<in> set example_table_2010.
        agg_District r = ''12'' \<and> agg_year r = 2010 \<and> agg_month r = 3
      \<and> Total_Population r = NaN)"
proof -
  let ?u = "\<lparr>Date = WellFormed \<lparr>ts_year = 2010, ts_month = 3, ts_day = 11, ts_second = 0\<rparr>,
             ID = 8, District = ''012'', Primary_Type = ''THEFT'',
             Crime_Category = ''Property Crime''\<rparr>"
  let ?t = "\<lparr>ts_year = 2010, ts_month = 3, ts_day = 11, ts_second = 0\<rparr>"
  have mem: "last example_table_2010 \<in> set example_table_2010"
    by (simp add: example_table_2010_def)
  have d: "agg_District (last example_table_2010) = ''12''"
    by (simp add: example_table_2010_def)
  have nums: "map dy_dist_num (acs_2010_2020 example_ov example_tracts example_districts example_api)
      = [''22'', ''22'', ''6'', ''6'']"
    by code_simp
  have "''12'' \<notin> set (map dy_dist_num
          (acs_2010_2020 example_ov example_tracts example_districts example_api))"
    unfolding nums by simp
  then have out12: "''12''
        \<notin> dy_dist_num ` set (acs_2010_2020 example_ov example_tracts example_districts example_api)"
    by simp
  then have out: "agg_District (last example_table_2010)
        \<notin> dy_dist_num ` set (acs_2010_2020 example_ov example_tracts example_districts example_api)"
    unfolding d .
  have strip: "lstrip0 ''012'' = ''12''"
    by code_simp
  obtain units where units: "crime_units (example_crime 2010) = Inr units" "?u \<in> set units"
    using example_unit_2010 by (cases "crime_units (example_crime 2010)") simp_all
  then have ex: "\<exists>units. crime_units (example_crime 2010) = Inr units \<and> ?u \<in> set units"
    by blast
  note t = crime_districts_normalised [where ov = example_ov and tracts = example_tracts
      and ds = example_districts and api = example_api and csv = "example_crime 2010"
      and table = example_table_2010 and units = units and u = "?u" and t = "?t"]
  note t1 = t [THEN conjunct1, THEN mp, OF disjI1 [OF example_run_2010], THEN bspec, OF mem]
  from t1 have a: "agg_District (last example_table_2010) \<in> set (map str_nat ([1..<13] @ [14..<21] @ [22, 24, 25]))"
    by (rule conjunct1)
  from t1 [THEN conjunct2, THEN conjunct1, THEN mp, OF conjI [OF example_run_2010 out]]
  have b: "Total_Population (last example_table_2010) = NaN" .
  have "\<exists>r \<in> set example_table_2010.
          agg_District r = lstrip0 (District ?u) \<and> agg_year r = ts_year ?t
        \<and> agg_month r = ts_month ?t
        \<and> (lstrip0 (District ?u)
             \<notin> dy_dist_num ` set (acs_2010_2020 example_ov example_tracts example_districts example_api)
           \<longrightarrow> Total_Population r = NaN)"
    by (rule t [THEN conjunct2, THEN conjunct1, THEN mp])
      (simp add: example_run_2010 units)
  then obtain r where r: "r \<in> set example_table_2010" "agg_District r = ''12''"
    "agg_year r = 2010" "agg_month r = 3"
    "''12'' \<notin> dy_dist_num ` set (acs_2010_2020 example_ov example_tracts example_districts example_api)
           \<longrightarrow> Total_Population r = NaN"
    by (auto simp: strip)
  from r(5) out12 have "Total_Population r = NaN" by blast
  with r(1-4) have kept: "\<exists>r \<in> set example_table_2010.
        agg_District r = ''12'' \<and> agg_year r = 2010 \<and> agg_month r = 3
      \<and> Total_Population r = NaN"
    by blast
  show ?thesis
    by (intro conjI) (fact example_run_2010 mem d out a b ex strip kept)+
qed

text \<open>
  C5 as stated fails on the example: the crime table has district 12, from the record of
  district 13, and the survey table, built from the polygons of districts 22 and 6, has
  not.
\<close>

theorem crime_districts_counterexample:
  "pipeline_2010_2020 example_ov example_tracts example_districts example_api (example_crime 2010)
     = Inr example_table_2010
   \<and> map agg_District example_table_2010 = [''6'', ''6'', ''12'']
   \<and> map dy_dist_num (acs_2010_2020 example_ov example_tracts example_districts example_api)
       = [''22'', ''22'', ''6'', ''6'']
   \<and> ''12'' \<in> set (map agg_District example_table_2010)
   \<and> ''12'' \<notin> set (map dy_dist_num
                (acs_2010_2020 example_ov example_tracts example_districts example_api))"
proof -
  have nums: "map dy_dist_num (acs_2010_2020 example_ov example_tracts example_districts example_api)
      = [''22'', ''22'', ''6'', ''6'']"
    by code_simp
  have crime: "map agg_District example_table_2010 = [''6'', ''6'', ''12'']"
    by (simp add: example_table_2010_def)
  show ?thesis
    unfolding nums crime using example_run_2010 by simp
qed

text \<open>
  C9, as amended. The rows labelled \<open>31ST\<close> leave the district table before the overlay,
  in both notebooks, and every district number of an areal-weight row or of a row of
  either survey table is the number of a district row that was kept, that is, of a row
  with another label. So where the district table labels every row numbered 31 so, no
  areal-weight row and no row of either survey table is of district 31. No row of either
  crime table is, whatever the input, since the R step keeps the districts 001 to 025
  only.
\<close>

theorem district_31_never_appears:
  shows "w_dist_num ` set (tracts_to_districts_2010 ov tracts ds) \<subseteq> dist_num ` set (remove_31ST ds)
       \<and> w_dist_num ` set (tracts_to_districts_2005 ov tracts ds) \<subseteq> dist_num ` set (remove_31ST ds)
       \<and> dy_dist_num ` set (acs_2010_2020 ov tracts ds api) \<subseteq> dist_num ` set (remove_31ST ds)
       \<and> d_dist_num ` set (acs_2005_2009 ov tracts ds nhgis) \<subseteq> dist_num ` set (remove_31ST ds)
       \<and> ((\<forall>d \<in> set ds. dist_num d = ''31'' \<longrightarrow> dist_label d = ''31ST'')
            \<longrightarrow> ''31'' \<notin> w_dist_num ` set (tracts_to_districts_2010 ov tracts ds)
              \<and> ''31'' \<notin> w_dist_num ` set (tracts_to_districts_2005 ov tracts ds)
              \<and> ''31'' \<notin> dy_dist_num ` set (acs_2010_2020 ov tracts ds api)
              \<and> ''31'' \<notin> d_dist_num ` set (acs_2005_2009 ov tracts ds nhgis))
       \<and> (pipeline_2010_2020 ov tracts ds api csv = Inr table
            \<longrightarrow> ''31'' \<notin> agg_District ` set table)
       \<and> (pipeline_2005_2009 ov tracts ds nhgis csv = Inr table
            \<longrightarrow> ''31'' \<notin> agg_District ` set table)"
proof -
  have one: "w_dist_num ` set (tracts_to_districts_2010 ov tracts ds) \<subseteq> dist_num ` set (remove_31ST ds)"
  proof
    fix x assume "x \<in> w_dist_num ` set (tracts_to_districts_2010 ov tracts ds)"
    then obtain w where w: "w \<in> set (tracts_to_districts_2010 ov tracts ds)" "x = w_dist_num w"
      by auto
    from w(1) have "w \<in> set (tracts_to_districts_2010 ov tracts ds)
           \<or> w \<in> set (tracts_to_districts_2005 ov tracts ds)" by (rule disjI1)
    from weights_from_kept_districts [OF this] w(2)
    show "x \<in> dist_num ` set (remove_31ST ds)" by simp
  qed
  have two: "w_dist_num ` set (tracts_to_districts_2005 ov tracts ds) \<subseteq> dist_num ` set (remove_31ST ds)"
  proof
    fix x assume "x \<in> w_dist_num ` set (tracts_to_districts_2005 ov tracts ds)"
    then obtain w where w: "w \<in> set (tracts_to_districts_2005 ov tracts ds)" "x = w_dist_num w"
      by auto
    from w(1) have "w \<in> set (tracts_to_districts_2010 ov tracts ds)
           \<or> w \<in> set (tracts_to_districts_2005 ov tracts ds)" by (rule disjI2)
    from weights_from_kept_districts [OF this] w(2)
    show "x \<in> dist_num ` set (remove_31ST ds)" by simp
  qed
  have three: "dy_dist_num ` set (acs_2010_2020 ov tracts ds api) \<subseteq> dist_num ` set (remove_31ST ds)"
  proof
    fix x assume "x \<in> dy_dist_num ` set (acs_2010_2020 ov tracts ds api)"
    then obtain p where p: "p \<in> set (acs_2010_2020 ov tracts ds api)" "x = dy_dist_num p"
      by auto
    from survey_2010_from_kept_districts [OF p(1)] p(2)
    show "x \<in> dist_num ` set (remove_31ST ds)" by simp
  qed
  have four: "d_dist_num ` set (acs_2005_2009 ov tracts ds nhgis) \<subseteq> dist_num ` set (remove_31ST ds)"
  proof
    fix x assume "x \<in> d_dist_num ` set (acs_2005_2009 ov tracts ds nhgis)"
    then obtain p where p: "p \<in> set (acs_2005_2009 ov tracts ds nhgis)" "x = d_dist_num p"
      by auto
    from survey_2005_from_kept_districts [OF p(1)] p(2)
    show "x \<in> dist_num ` set (remove_31ST ds)" by simp
  qed
  have five: "(\<forall>d \<in> set ds. dist_num d = ''31'' \<longrightarrow> dist_label d = ''31ST'')
            \<longrightarrow> ''31'' \<notin> w_dist_num ` set (tracts_to_districts_2010 ov tracts ds)
              \<and> ''31'' \<notin> w_dist_num ` set (tracts_to_districts_2005 ov tracts ds)
              \<and> ''31'' \<notin> dy_dist_num ` set (acs_2010_2020 ov tracts ds api)
              \<and> ''31'' \<notin> d_dist_num ` set (acs_2005_2009 ov tracts ds nhgis)"
  proof
    assume "\<forall>d \<in> set ds. dist_num d = ''31'' \<longrightarrow> dist_label d = ''31ST''"
    then have no: "''31'' \<notin> dist_num ` set (remove_31ST ds)"
      by (rule kept_districts_not_31)
    from no one have a: "''31'' \<notin> w_dist_num ` set (tracts_to_districts_2010 ov tracts ds)"
      by (rule contra_subsetD [rotated])
    from no two have b: "''31'' \<notin> w_dist_num ` set (tracts_to_districts_2005 ov tracts ds)"
      by (rule contra_subsetD [rotated])
    from no three have c: "''31'' \<notin> dy_dist_num ` set (acs_2010_2020 ov tracts ds api)"
      by (rule contra_subsetD [rotated])
    from no four have d: "''31'' \<notin> d_dist_num ` set (acs_2005_2009 ov tracts ds nhgis)"
      by (rule contra_subsetD [rotated])
    from a b c d
    show "''31'' \<notin> w_dist_num ` set (tracts_to_districts_2010 ov tracts ds)
              \<and> ''31'' \<notin> w_dist_num ` set (tracts_to_districts_2005 ov tracts ds)
              \<and> ''31'' \<notin> dy_dist_num ` set (acs_2010_2020 ov tracts ds api)
              \<and> ''31'' \<notin> d_dist_num ` set (acs_2005_2009 ov tracts ds nhgis)"
      by (intro conjI)
  qed
  have six: "pipeline_2010_2020 ov tracts ds api csv = Inr table
            \<longrightarrow> ''31'' \<notin> agg_District ` set table"
  proof
    assume "pipeline_2010_2020 ov tracts ds api csv = Inr table"
    then have "pipeline_2010_2020 ov tracts ds api csv = Inr table
           \<or> pipeline_2005_2009 ov tracts ds nhgis csv = Inr table" by (rule disjI1)
    then show "''31'' \<notin> agg_District ` set table" by (rule crime_table_not_31)
  qed
  have seven: "pipeline_2005_2009 ov tracts ds nhgis csv = Inr table
            \<longrightarrow> ''31'' \<notin> agg_District ` set table"
  proof
    assume "pipeline_2005_2009 ov tracts ds nhgis csv = Inr table"
    then have "pipeline_2010_2020 ov tracts ds api csv = Inr table
           \<or> pipeline_2005_2009 ov tracts ds nhgis csv = Inr table" by (rule disjI2)
    then show "''31'' \<notin> agg_District ` set table" by (rule crime_table_not_31)
  qed
  show ?thesis
    by (intro conjI) (fact one two three four five six seven)+
qed

theorem district_31_never_appears_witness:
  "list_all (\<lambda>d. dist_num d = ''31'' \<longrightarrow> dist_label d = ''31ST'') example_districts
   \<and> ''31'' \<in> dist_num ` set example_districts
   \<and> ''31'' \<notin> w_dist_num ` set (tracts_to_districts_2010 example_ov example_tracts example_districts)
   \<and> ''31'' \<notin> w_dist_num ` set (tracts_to_districts_2005 example_ov example_tracts example_districts)
   \<and> ''31'' \<notin> dy_dist_num ` set (acs_2010_2020 example_ov example_tracts example_districts
                                     example_api)
   \<and> ''31'' \<notin> d_dist_num ` set (acs_2005_2009 example_ov example_tracts example_districts
                                    example_nhgis)
   \<and> pipeline_2005_2009 example_ov example_tracts example_districts example_nhgis
        (example_crime 2005) = Inr example_table_2005
   \<and> ''31'' \<notin> agg_District ` set example_table_2005
   \<and> map dist_num (remove_31ST mislabelled_districts) = [''22'', ''6'', ''31'']
   \<and> w_dist_num ` set (tracts_to_districts_2005 example_ov example_tracts mislabelled_districts)
        \<subseteq> {''22'', ''6'', ''31''}"
proof -
  have h: "\<forall>d \<in> set example_districts. dist_num d = ''31'' \<longrightarrow> dist_label d = ''31ST''"
    by (simp add: example_districts_def)
  then have h': "list_all (\<lambda>d. dist_num d = ''31'' \<longrightarrow> dist_label d = ''31ST'') example_districts"
    by (simp add: list_all_iff)
  have present: "''31'' \<in> dist_num ` set example_districts"
    by (simp add: example_districts_def)
  note t = district_31_never_appears [of example_ov example_tracts example_districts example_api
      example_nhgis "example_crime 2005" example_table_2005]
  note t5 = t [THEN conjunct2, THEN conjunct2, THEN conjunct2, THEN conjunct2, THEN conjunct1,
      THEN mp, OF h]
  from t5 have a: "''31'' \<notin> w_dist_num ` set
      (tracts_to_districts_2010 example_ov example_tracts example_districts)"
    by (rule conjunct1)
  from t5 have b: "''31'' \<notin> w_dist_num ` set
      (tracts_to_districts_2005 example_ov example_tracts example_districts)"
    by (rule conjunct1 [OF conjunct2])
  from t5 have c: "''31'' \<notin> dy_dist_num ` set
      (acs_2010_2020 example_ov example_tracts example_districts example_api)"
    by (rule conjunct1 [OF conjunct2 [OF conjunct2]])
  from t5 have d: "''31'' \<notin> d_dist_num ` set
      (acs_2005_2009 example_ov example_tracts example_districts example_nhgis)"
    by (rule conjunct2 [OF conjunct2 [OF conjunct2]])
  from t [THEN conjunct2, THEN conjunct2, THEN conjunct2, THEN conjunct2, THEN conjunct2,
      THEN conjunct2, THEN mp, OF example_run_2005]
  have e: "''31'' \<notin> agg_District ` set example_table_2005" .
  have kept: "map dist_num (remove_31ST mislabelled_districts) = [''22'', ''6'', ''31'']"
    by code_simp
  from district_31_never_appears [of example_ov example_tracts mislabelled_districts,
      THEN conjunct2, THEN conjunct1]
  have "w_dist_num ` set (tracts_to_districts_2005 example_ov example_tracts mislabelled_districts)
        \<subseteq> set (map dist_num (remove_31ST mislabelled_districts))"
    by simp
  then have f: "w_dist_num ` set (tracts_to_districts_2005 example_ov example_tracts mislabelled_districts)
        \<subseteq> {''22'', ''6'', ''31''}"
    unfolding kept by simp
  show ?thesis
    by (intro conjI) (fact h' present a b c d example_run_2005 e kept f)+
qed

text \<open>
  C9 as stated fails on a district table whose row numbered 31 has the label \<open>31\<close>: the
  removal is by label, the row stays, and district 31 is in the areal weights and in the
  survey tables of both notebooks. The last filter of the 2005-2009 notebook,
  \<open>dist_num != 31\<close>, removes nothing.
\<close>

theorem district_31_counterexample:
  "map dist_num mislabelled_districts = [''22'', ''6'', ''31'']
   \<and> remove_31ST mislabelled_districts = mislabelled_districts
   \<and> map w_dist_num (tracts_to_districts_2010 example_ov example_tracts mislabelled_districts)
       = [''22'', ''6'', ''31'', ''6'']
   \<and> ''31'' \<in> w_dist_num ` set (tracts_to_districts_2010 example_ov example_tracts
                                   mislabelled_districts)
   \<and> map w_dist_num (tracts_to_districts_2005 example_ov example_tracts mislabelled_districts)
       = [''22'', ''6'', ''31'', ''6'']
   \<and> ''31'' \<in> w_dist_num ` set (tracts_to_districts_2005 example_ov example_tracts
                                   mislabelled_districts)
   \<and> ''31'' \<in> dy_dist_num ` set (acs_2010_2020 example_ov example_tracts mislabelled_districts
                                    example_api)
   \<and> ''31'' \<in> d_dist_num ` set (acs_2005_2009 example_ov example_tracts mislabelled_districts
                                   example_nhgis)"
proof -
  have a: "map dist_num mislabelled_districts = [''22'', ''6'', ''31'']"
    by (simp add: mislabelled_districts_def)
  have b: "remove_31ST mislabelled_districts = mislabelled_districts"
    by (simp add: remove_31ST_def mislabelled_districts_def)
  have c: "map w_dist_num (tracts_to_districts_2010 example_ov example_tracts mislabelled_districts)
       = [''22'', ''6'', ''31'', ''6'']"
    by code_simp
  have d: "map w_dist_num (tracts_to_districts_2005 example_ov example_tracts mislabelled_districts)
       = [''22'', ''6'', ''31'', ''6'']"
    by code_simp
  have "''31'' \<in> set (map w_dist_num
      (tracts_to_districts_2010 example_ov example_tracts mislabelled_districts))"
    unfolding c by simp
  then have c': "''31'' \<in> w_dist_num ` set (tracts_to_districts_2010 example_ov example_tracts
                                   mislabelled_districts)"
    by simp
  have "''31'' \<in> set (map w_dist_num
      (tracts_to_districts_2005 example_ov example_tracts mislabelled_districts))"
    unfolding d by simp
  then have d': "''31'' \<in> w_dist_num ` set (tracts_to_districts_2005 example_ov example_tracts
                                   mislabelled_districts)"
    by simp
  have "''31'' \<in> set (map dy_dist_num
      (acs_2010_2020 example_ov example_tracts mislabelled_districts example_api))"
    by code_simp
  then have e: "''31'' \<in> dy_dist_num ` set (acs_2010_2020 example_ov example_tracts mislabelled_districts
                                    example_api)"
    by simp
  have "''31'' \<in> set (map d_dist_num
      (acs_2005_2009 example_ov example_tracts mislabelled_districts example_nhgis))"
    by code_simp
  then have f: "''31'' \<in> d_dist_num ` set (acs_2005_2009 example_ov example_tracts mislabelled_districts
                                   example_nhgis)"
    by simp
  show ?thesis
    by (intro conjI) (fact a b c c' d d' e f)+
qed

text \<open>
  C2. The claim asks that a district attribute be the sum over the tracts of the tract
  value times the areal proportion, in both notebooks. The 2010-2020 notebook computes
  that (lemma \<open>district_aggregated_post_2009_weighted\<close>). The 2005-2009 notebook keeps the
  column \<open>proportion\<close> and never multiplies by it: its \<open>Total_Population\<close> is the sum of
  the whole population of every tract that touches the district (lemma
  \<open>district_aggregated2005_unweighted_sum\<close>). On the example the tract of 400 residents
  lies for 1/4 in district 22 and for 3/4 in district 6, and the tract of 100 residents in
  district 6: the 2005-2009 notebook gives 400 and 500 where the weighted sums are 100 and
  400, which the 2010-2020 notebook gives on the same tracts.
\<close>

theorem district_aggregated2005_ignores_proportion:
  "map (\<lambda>w. (w_tract w, w_dist_num w, proportion w))
       (tracts_to_districts_2005 example_ov example_tracts example_districts)
     = [(''17031000100'', ''22'', Fin (1 / 4)), (''17031000100'', ''6'', Fin (3 / 4)),
        (''17031000200'', ''6'', Fin 1)]
   \<and> map (\<lambda>r. (census_tract_id r, chicago_value r RK9E001)) (acs2005_2009_chicago example_nhgis)
     = [(''17031000100'', Fin 400), (''17031000200'', Fin 100)]
   \<and> map (\<lambda>r. (d_dist_num r, d_Total_Population r))
       (acs_2005_2009 example_ov example_tracts example_districts example_nhgis)
     = [(''22'', Fin 400), (''6'', Fin 500)]
   \<and> map (\<lambda>r. (dy_dist_num r, dy_year r, Total_Population_post_2009 r))
       (acs_2010_2020 example_ov example_tracts example_districts example_api)
     = [(''22'', 2010, Fin 100), (''22'', 2011, Fin 200),
        (''6'', 2010, Fin 400), (''6'', 2011, Fin 800)]"
  by code_simp

text \<open>
  C6. The category mapping gives every primary type one of the six labels, and
  \<open>Other\<close> to every type outside the five listed sets; every record that the R step
  writes carries the label of its primary type.
\<close>

theorem categorise_six_labels:
  "categorise primary_type \<in> set [''Violent Crime'', ''Property Crime'', ''Drug-Related Crime'',
       ''Public Order Crime'', ''Administrative or Non-Criminal'', ''Other'']
   \<and> (primary_type \<notin> set (violent_types @ property_types @ drug_types @ public_order_types
                             @ administrative_types)
        \<longrightarrow> categorise primary_type = ''Other'')
   \<and> (crime_units csv = Inr units \<longrightarrow>
        (\<forall>u \<in> set units. Crime_Category u = categorise (Primary_Type u)))"
proof (intro conjI impI ballI)
  show "categorise primary_type \<in> set [''Violent Crime'', ''Property Crime'',
       ''Drug-Related Crime'', ''Public Order Crime'', ''Administrative or Non-Criminal'',
       ''Other'']"
    by (simp add: categorise_def)
next
  assume "primary_type \<notin> set (violent_types @ property_types @ drug_types @ public_order_types
                             @ administrative_types)"
  then show "categorise primary_type = ''Other''"
    by (simp add: categorise_def)
next
  fix u assume "crime_units csv = Inr units" "u \<in> set units"
  from crime_units_set [OF this] show "Crime_Category u = categorise (Primary_Type u)"
    by simp
qed

theorem categorise_six_labels_witness:
  "''RITUALISM'' \<notin> set (violent_types @ property_types @ drug_types @ public_order_types
                          @ administrative_types)
   \<and> categorise ''RITUALISM'' = ''Other''
   \<and> categorise ''THEFT'' \<in> set [''Violent Crime'', ''Property Crime'', ''Drug-Related Crime'',
       ''Public Order Crime'', ''Administrative or Non-Criminal'', ''Other'']"
proof -
  have out: "''RITUALISM'' \<notin> set (violent_types @ property_types @ drug_types
      @ public_order_types @ administrative_types)"
    by code_simp
  from categorise_six_labels [of "''RITUALISM''", THEN conjunct2, THEN conjunct1, rule_format, OF out]
  have a: "categorise ''RITUALISM'' = ''Other''" .
  from categorise_six_labels [of "''THEFT''"]
  have b: "categorise ''THEFT'' \<in> set [''Violent Crime'', ''Property Crime'',
       ''Drug-Related Crime'', ''Public Order Crime'', ''Administrative or Non-Criminal'',
       ''Other'']"
    by (rule conjunct1)
  show ?thesis by (intro conjI) (fact out a b)+
qed

text \<open>
  C7, as amended. A malformed date makes no conversion fail: \<open>mdy_hms\<close> turns it into
  \<open>NA\<close>, and \<open>pd.to_datetime\<close> with \<open>errors='coerce'\<close> into \<open>NaT\<close>, and gives the
  whole column; the year filter then drops the record. Neither the R step nor a notebook
  ends with a date-parsing error.
\<close>

theorem malformed_date_becomes_missing:
  "mdy_hms (Malformed s) = None
   \<and> to_datetime errors_coerce cells = Inr (map mdy_hms cells)
   \<and> crime_filtered lo hi ((None, c) # rows) = crime_filtered lo hi rows
   \<and> crime_units csv \<noteq> Inl (ParserError s')
   \<and> crime_aggregated_2010_2020 units acs \<noteq> Inl (ParserError s')
   \<and> crime_aggregated_monthly2005 units acs' \<noteq> Inl (ParserError s')"
proof (intro conjI)
  show "mdy_hms (Malformed s) = None"
    by (simp add: mdy_hms_def)
  show "to_datetime errors_coerce cells = Inr (map mdy_hms cells)"
    by (rule to_datetime_coerce)
  show "crime_filtered lo hi ((None, c) # rows) = crime_filtered lo hi rows"
    by (simp add: crime_filtered_def)
  show "crime_units csv \<noteq> Inl (ParserError s')"
    by (auto simp: crime_units_def split: sum.splits dest: sprintf_column_error)
  show "crime_aggregated_2010_2020 units acs \<noteq> Inl (ParserError s')"
    by (auto simp: crime_aggregated_2010_2020_def to_datetime_coerce
          split: prod.splits dest: crime_rates_error)
  show "crime_aggregated_monthly2005 units acs' \<noteq> Inl (ParserError s')"
    by (auto simp: crime_aggregated_monthly2005_def to_datetime_coerce
          split: prod.splits dest: crime_rates_error)
qed

text \<open>
  C7 as stated fails on the last record of the example, whose date is malformed: the
  conversion returns a missing value where \<open>errors='raise'\<close> would have raised, and the
  pipeline returns its table.
\<close>

theorem malformed_date_counterexample:
  "csv_Date (last (example_crime 2010)) = Malformed ''13/45/2010''
   \<and> mdy_hms (Malformed ''13/45/2010'') = None
   \<and> to_datetime errors_coerce [Malformed ''13/45/2010''] = Inr [None]
   \<and> to_datetime errors_raise [Malformed ''13/45/2010''] = Inl (ParserError ''13/45/2010'')
   \<and> pipeline_2010_2020 example_ov example_tracts example_districts example_api (example_crime 2010)
       = Inr example_table_2010"
  using example_run_2010 by (simp add: example_crime_def mdy_hms_def)

theorem malformed_date_becomes_missing_witness:
  "to_datetime errors_coerce
     [WellFormed \<lparr>ts_year = 2010, ts_month = 3, ts_day = 5, ts_second = 0\<rparr>,
      Malformed ''13/45/2010'']
     = Inr [Some \<lparr>ts_year = 2010, ts_month = 3, ts_day = 5, ts_second = 0\<rparr>, None]"
proof -
  from malformed_date_becomes_missing
    [of "''13/45/2010''"
        "[WellFormed \<lparr>ts_year = 2010, ts_month = 3, ts_day = 5, ts_second = 0\<rparr>,
          Malformed ''13/45/2010'']"]
  have "to_datetime errors_coerce
     [WellFormed \<lparr>ts_year = 2010, ts_month = 3, ts_day = 5, ts_second = 0\<rparr>,
      Malformed ''13/45/2010'']
     = Inr (map mdy_hms
         [WellFormed \<lparr>ts_year = 2010, ts_month = 3, ts_day = 5, ts_second = 0\<rparr>,
          Malformed ''13/45/2010''])"
    by (rule conjunct2 [THEN conjunct1])
  then show ?thesis by (simp add: mdy_hms_def)
qed




end
